theory Spec2Isabelle
  imports Main
begin

section \<open>JavaScript values used by the pipeline\<close>

text \<open>
  Strings are character lists. The model covers ASCII text: \<open>toUpperCase\<close> maps
  \<open>a\<close>..\<open>z\<close> and white space is the ASCII white space. Dates are integers, the
  milliseconds since the epoch. The emoji that some console lines of the source start
  with are left out of the modelled lines.
\<close>

text \<open>\<open>a || b\<close> on an optional string: \<open>undefined\<close> and the empty string are falsy.\<close>

definition falsy :: "string option \<Rightarrow> bool" where
  "falsy v = (case v of None \<Rightarrow> True | Some s \<Rightarrow> s = [])"

definition orElse :: "string option \<Rightarrow> string \<Rightarrow> string" where
  "orElse v d = (if falsy v then d else the v)"

definition orElseOpt :: "string option \<Rightarrow> string option \<Rightarrow> string option" where
  "orElseOpt v d = (if falsy v then d else v)"

text \<open>\<open>xs?.[0]\<close>: the first element, \<open>undefined\<close> on an empty or absent array.\<close>

definition first :: "'a list option \<Rightarrow> 'a option" where
  "first xs = (case xs of None \<Rightarrow> None | Some [] \<Rightarrow> None | Some (x # _) \<Rightarrow> Some x)"

definition upperChar :: "char \<Rightarrow> char" where
  "upperChar c =
     (case map_of (zip ''abcdefghijklmnopqrstuvwxyz'' ''ABCDEFGHIJKLMNOPQRSTUVWXYZ'') c of
        None \<Rightarrow> c
      | Some u \<Rightarrow> u)"

definition toUpperCase :: "string \<Rightarrow> string" where
  "toUpperCase s = map upperChar s"

definition isWhiteSpace :: "char \<Rightarrow> bool" where
  "isWhiteSpace c = (of_char c \<in> {9, 10, 11, 12, 13, 32::nat})"

definition trim :: "string \<Rightarrow> string" where
  "trim s = rev (dropWhile isWhiteSpace (rev (dropWhile isWhiteSpace s)))"

text \<open>
  \<open>parseInt(s)\<close> with no radix: leading white space is skipped, then an optional sign,
  then \<open>0x\<close>/\<open>0X\<close> selects radix 16, then the longest prefix of digits is read; no digit
  gives \<open>NaN\<close> (\<open>None\<close>).
\<close>

definition digitVal :: "char \<Rightarrow> nat option" where
  "digitVal c =
     (let n = (of_char c :: nat) in
      if 48 \<le> n \<and> n \<le> 57 then Some (n - 48)
      else if 97 \<le> n \<and> n \<le> 122 then Some (n - 87)
      else if 65 \<le> n \<and> n \<le> 90 then Some (n - 55)
      else None)"

definition isDigit :: "nat \<Rightarrow> char \<Rightarrow> bool" where
  "isDigit r c = (case digitVal c of None \<Rightarrow> False | Some d \<Rightarrow> d < r)"

definition digitsVal :: "nat \<Rightarrow> string \<Rightarrow> nat" where
  "digitsVal r ds =
     foldl (\<lambda>acc c. case digitVal c of None \<Rightarrow> acc | Some d \<Rightarrow> acc * r + d) 0 ds"

definition parseInt :: "string \<Rightarrow> int option" where
  "parseInt str =
     (let s = dropWhile isWhiteSpace str;
          sign = (if take 1 s = ''-'' then -1 else 1 :: int);
          s1 = (if take 1 s = ''+'' \<or> take 1 s = ''-'' then drop 1 s else s);
          hex = (take 2 s1 = ''0x'' \<or> take 2 s1 = ''0X'');
          r = (if hex then 16 else 10 :: nat);
          s2 = (if hex then drop 2 s1 else s1);
          z = takeWhile (isDigit r) s2
      in if z = [] then None else Some (sign * int (digitsVal r z)))"

text \<open>
  \<open>new Date(parseInt(s) * 1000)\<close>: the time value when it is within the range of a
  Date (at most 8.64e15 milliseconds from the epoch), \<open>Invalid Date\<close> (\<open>None\<close>)
  otherwise. Every product in range is below \<open>2^53\<close>, so the double arithmetic of
  the source is exact there, and a product out of range stays out of range after rounding.
\<close>

definition newDateSeconds :: "int option \<Rightarrow> int option" where
  "newDateSeconds n =
     (case n of None \<Rightarrow> None
      | Some k \<Rightarrow> if \<bar>k * 1000\<bar> \<le> 8640000000000000 then Some (k * 1000) else None)"

section \<open>The webhook payload (\<open>processPayload.ts\<close>)\<close>

text \<open>
  The interfaces of the source, a field \<open>f?: T\<close> as \<open>T option\<close>. The two fields of
  \<open>WhatsAppMetadata\<close> are options as well: the source reads them through \<open>||\<close>,
  which is there for a payload that leaves them out.
\<close>

datatype WhatsAppText = WhatsAppText (text_body: string)
datatype WhatsAppImage = WhatsAppImage (image_caption: "string option")
datatype WhatsAppDocument = WhatsAppDocument (document_filename: "string option")
datatype WhatsAppVideo = WhatsAppVideo (video_caption: "string option")

record WhatsAppMessage =
  msg_id :: string
  msg_from :: string
  msg_to :: "string option"
  msg_timestamp :: string
  msg_type :: string
  msg_text :: "WhatsAppText option"
  msg_image :: "WhatsAppImage option"
  msg_document :: "WhatsAppDocument option"
  msg_video :: "WhatsAppVideo option"

record WhatsAppContact =
  profile_name :: string
  wa_id :: string

record WhatsAppMetadata =
  display_phone_number :: "string option"
  phone_number_id :: "string option"

record WhatsAppStatus =
  st_id :: string
  st_meta_msg_id :: "string option"
  st_status :: string
  st_timestamp :: string
  st_recipient_id :: string

record WhatsAppValue =
  messaging_product :: "string option"
  metadata :: "WhatsAppMetadata option"
  contacts :: "WhatsAppContact list option"
  messages :: "WhatsAppMessage list option"
  statuses :: "WhatsAppStatus list option"

record Change =
  change_field :: string
  change_value :: WhatsAppValue

record Entry =
  changes :: "Change list option"

record MetaData =
  entry :: "Entry list option"

record WebhookPayload =
  metaData :: "MetaData option"

section \<open>The message store (\<open>models.ts\<close>)\<close>

text \<open>
  A stored document of the collection \<open>processed_messages\<close>. The collection is the list
  of its documents in insertion order. The index on \<open>messageId\<close> is not unique. The
  database is taken to be reachable: a call to the store fails on validation only.
\<close>

record message =
  conversationId :: string
  messageId :: string
  from' :: string
  to' :: string
  timestamp :: int
  type' :: string
  body :: string
  status :: string
  userName :: string
  createdAt :: int
  updatedAt :: int

text \<open>The argument of \<open>new Message({...})\<close>; the Date may be invalid.\<close>

record newMessage =
  new_conversationId :: string
  new_messageId :: string
  new_from :: string
  new_to :: string
  new_timestamp :: "int option"
  new_type :: string
  new_body :: string
  new_status :: string
  new_userName :: string

datatype error = ValidationError "string list" | AggregateError string

text \<open>
  \<open>save()\<close> validates the schema first: a \<open>required\<close> string path must be a non-empty
  string, the \<open>required\<close> Date must be a valid date, \<open>status\<close> must be in its enum. It
  fails with the paths that are invalid, and otherwise inserts the document, with both
  bookkeeping timestamps set to the current time.
\<close>

definition statusEnum :: "string list" where
  "statusEnum = [''pending'', ''sent'', ''delivered'', ''read'']"

definition invalidPaths :: "newMessage \<Rightarrow> string list" where
  "invalidPaths d =
     (if new_conversationId d = [] then [''conversationId''] else []) @
     (if new_messageId d = [] then [''messageId''] else []) @
     (if new_from d = [] then [''from''] else []) @
     (if new_to d = [] then [''to''] else []) @
     (if new_timestamp d = None then [''timestamp''] else []) @
     (if new_type d = [] then [''type''] else []) @
     (if new_status d \<in> set statusEnum then [] else [''status''])"

definition save :: "int \<Rightarrow> newMessage \<Rightarrow> error + message" where
  "save now d =
     (if invalidPaths d \<noteq> [] then Inl (ValidationError (invalidPaths d))
      else Inr \<lparr> conversationId = new_conversationId d, messageId = new_messageId d,
                 from' = new_from d, to' = new_to d, timestamp = the (new_timestamp d),
                 type' = new_type d, body = new_body d, status = new_status d,
                 userName = new_userName d, createdAt = now, updatedAt = now \<rparr>)"

definition findOne :: "string \<Rightarrow> message list \<Rightarrow> message option" where
  "findOne mid db = find (\<lambda>m. messageId m = mid) db"

text \<open>
  \<open>updateOne\<close> and \<open>findOneAndUpdate\<close> with the filter \<open>{messageId}\<close>: the first
  matching document is changed, no other.
\<close>

fun updateFirst :: "string \<Rightarrow> (message \<Rightarrow> message) \<Rightarrow> message list \<Rightarrow> message list" where
  "updateFirst mid f [] = []"
| "updateFirst mid f (m # db) =
     (if messageId m = mid then f m # db else m # updateFirst mid f db)"

definition setStatus :: "string \<Rightarrow> int \<Rightarrow> message \<Rightarrow> message" where
  "setStatus s now m = m\<lparr> status := s, updatedAt := now \<rparr>"

definition matchedCount :: "string \<Rightarrow> message list \<Rightarrow> nat" where
  "matchedCount mid db = (case findOne mid db of None \<Rightarrow> 0 | Some _ \<Rightarrow> 1)"

text \<open>With \<open>{new: true}\<close> the document is returned as it is after the update.\<close>

definition findOneAndUpdate :: "string \<Rightarrow> string \<Rightarrow> int \<Rightarrow> message list \<Rightarrow> message option \<times> message list" where
  "findOneAndUpdate mid s now db =
     (map_option (setStatus s now) (findOne mid db), updateFirst mid (setStatus s now) db)"

section \<open>The state of the server\<close>

text \<open>
  The collection, the console, and what was emitted to the rooms of the socket server,
  oldest first.
\<close>

datatype console_entry =
  Log string
| LogIds string "string list"
| LogError string error

datatype event =
  NewMessage message
| MessageStatusUpdated string string int

record world =
  store :: "message list"
  console :: "console_entry list"
  emitted :: "(string \<times> event) list"

definition say :: "console_entry \<Rightarrow> world \<Rightarrow> world" where
  "say e w = w\<lparr> console := console w @ [e] \<rparr>"

definition emit :: "string \<Rightarrow> event \<Rightarrow> world \<Rightarrow> world" where
  "emit room ev w = w\<lparr> emitted := emitted w @ [(room, ev)] \<rparr>"

section \<open>Processing a webhook payload (\<open>processPayload.ts\<close>)\<close>

text \<open>
  A function of the pipeline takes the state and returns the state after it, with
  \<open>Inl e\<close> when it throws \<open>e\<close> and \<open>Inr ()\<close> when it returns. The current time is
  the argument \<open>now\<close>.
\<close>

definition businessNumber :: "WhatsAppMetadata option \<Rightarrow> string" where
  "businessNumber md =
     orElse (orElseOpt (Option.bind md phone_number_id) (Option.bind md display_phone_number))
       ''918329446654''"

definition userNumber :: "WhatsAppMessage \<Rightarrow> string \<Rightarrow> string" where
  "userNumber message bn =
     (if msg_from message \<noteq> bn then msg_from message else orElse (msg_to message) [])"

definition messageBody :: "WhatsAppMessage \<Rightarrow> string" where
  "messageBody message =
     (if msg_type message = ''text'' then
        orElse (map_option text_body (msg_text message)) []
      else if msg_type message = ''image'' then
        orElse (Option.bind (msg_image message) image_caption) ''[Image]''
      else if msg_type message = ''document'' then
        orElse (Option.bind (msg_document message) document_filename) ''[Document]''
      else if msg_type message = ''audio'' then ''[Voice Message]''
      else if msg_type message = ''video'' then
        orElse (Option.bind (msg_video message) video_caption) ''[Video]''
      else ''['' @ toUpperCase (msg_type message) @ '']'')"

definition buildMessage :: "WhatsAppValue \<Rightarrow> WhatsAppMessage \<Rightarrow> newMessage" where
  "buildMessage v message =
     (let contact = first (contacts v);
          bn = businessNumber (metadata v);
          un = userNumber message bn;
          isFromBusiness = (msg_from message = bn)
      in \<lparr> new_conversationId = ''conv_'' @ un,
           new_messageId = msg_id message,
           new_from = msg_from message,
           new_to = (if isFromBusiness then un else bn),
           new_timestamp = newDateSeconds (parseInt (msg_timestamp message)),
           new_type = orElse (Some (msg_type message)) ''text'',
           new_body = messageBody message,
           new_status = ''sent'',
           new_userName = orElse (map_option profile_name contact)
                            (if isFromBusiness then ''Business'' else ''Unknown User'') \<rparr>)"

definition contentLine :: "string \<Rightarrow> string" where
  "contentLine b = ''   Content: '' @ take 50 b @ (if length b > 50 then ''...'' else [])"

definition processMessage :: "int \<Rightarrow> WhatsAppValue \<Rightarrow> world \<Rightarrow> (error + unit) \<times> world" where
  "processMessage now v w =
     (case first (messages v) of
        None \<Rightarrow> (Inr (), say (Log ''Invalid message data'') w)
      | Some message \<Rightarrow>
          if msg_id message = [] then (Inr (), say (Log ''Invalid message data'') w)
          else
            (case findOne (msg_id message) (store w) of
               Some existingMessage \<Rightarrow>
                 (Inr (), say (Log (''Message '' @ msg_id message @ '' already exists, skipping'')) w)
             | None \<Rightarrow>
                 (case save now (buildMessage v message) of
                    Inl e \<Rightarrow> (Inl e, say (LogError ''Error processing message:'' e) w)
                  | Inr saved \<Rightarrow>
                      (Inr (),
                       say (Log (contentLine (messageBody message)))
                         (say (Log (''Inserted message: '' @ msg_id message @ '' from '' @ userName saved))
                            (w\<lparr> store := store w @ [saved] \<rparr>))))))"

definition validStatuses :: "string list" where
  "validStatuses = [''sent'', ''delivered'', ''read'']"

text \<open>\<open>Message.find({}, {messageId: 1}).limit(5).sort({timestamp: -1})\<close>\<close>

definition recentMessages :: "message list \<Rightarrow> string list" where
  "recentMessages db = map messageId (take 5 (sort_key (\<lambda>m. - timestamp m) db))"

definition processStatusUpdate :: "int \<Rightarrow> WhatsAppValue \<Rightarrow> world \<Rightarrow> (error + unit) \<times> world" where
  "processStatusUpdate now v w =
     (case first (statuses v) of
        None \<Rightarrow> (Inr (), say (Log ''No status update found'') w)
      | Some statusUpdate \<Rightarrow>
          (let mid = orElseOpt (Some (st_id statusUpdate)) (st_meta_msg_id statusUpdate) in
           if falsy mid then (Inr (), say (Log ''No message ID found in status update'') w)
           else if st_status statusUpdate \<notin> set validStatuses then
             (Inr (), say (Log (''Invalid status: '' @ st_status statusUpdate)) w)
           else if matchedCount (the mid) (store w) > 0 then
             (Inr (),
              say (Log (''Updated status for message '' @ the mid @ '' to '' @ st_status statusUpdate))
                (w\<lparr> store := updateFirst (the mid) (setStatus (st_status statusUpdate) now) (store w) \<rparr>))
           else
             (Inr (),
              say (LogIds ''Recent message IDs:'' (recentMessages (store w)))
                (say (Log (''No message found to update for '' @ the mid)) w))))"

definition processWebhookPayload :: "int \<Rightarrow> WebhookPayload \<Rightarrow> world \<Rightarrow> (error + unit) \<times> world" where
  "processWebhookPayload now payload w =
     (case first (Option.bind (metaData payload) entry) of
        None \<Rightarrow> (Inr (), say (Log ''No entry found in payload'') w)
      | Some en \<Rightarrow>
          (case map_option change_value (first (changes en)) of
             None \<Rightarrow> (Inr (), say (Log ''No value found in payload'') w)
           | Some v \<Rightarrow>
               (case (if messages v \<noteq> None then processMessage now v w
                      else if statuses v \<noteq> None then processStatusUpdate now v w
                      else (Inr (), say (Log ''Unknown payload type'') w)) of
                  (Inl e, w') \<Rightarrow> (Inl e, say (LogError ''Error processing webhook payload:'' e) w')
                | (Inr u, w') \<Rightarrow> (Inr u, w'))))"

text \<open>The two helpers at the end of the file; nothing in the repository calls them.\<close>

definition extractPhoneNumber :: "string \<Rightarrow> string option" where
  "extractPhoneNumber phoneNumber =
     (if phoneNumber = [] then None
      else
        (let cleaned = filter (\<lambda>c. isDigit 10 c \<or> c = CHR ''+'') phoneNumber
         in Some (if take 1 cleaned = ''+'' then drop 1 cleaned else cleaned)))"

definition getConversationId :: "string \<Rightarrow> string \<Rightarrow> string" where
  "getConversationId un bn =
     ''conv_'' @ (case extractPhoneNumber un of None \<Rightarrow> ''null'' | Some c \<Rightarrow> c)"

section \<open>The HTTP handlers (\<open>routes.ts\<close>, \<open>controllers.ts\<close>)\<close>

text \<open>
  A value of an aggregation expression: a field path or an array element that does not
  exist evaluates to no value at all (\<open>Missing\<close>), which is not \<open>null\<close>; a projected
  field whose value is \<open>Missing\<close> is left out of the output document.
\<close>

datatype 'a bson = Missing | Null | Val 'a

record ConversationSummary =
  cs_conversationId :: string
  cs_userName :: "string bson"
  lastMessageBody :: string
  lastTimestamp :: int
  messageCount :: nat
  participants :: "string list"

datatype json =
  Success string
| Failure string
| ErrorBody string
| MessageJson message
| Conversations "ConversationSummary list"

datatype response = Response nat json

text \<open>\<open>POST /webhook\<close>\<close>

definition webhook :: "int \<Rightarrow> WebhookPayload \<Rightarrow> world \<Rightarrow> response \<times> world" where
  "webhook now payload w =
     (case processWebhookPayload now payload (say (Log ''Received webhook payload'') w) of
        (Inr u, w') \<Rightarrow> (Response 200 (Success ''Payload processed successfully''), w')
      | (Inl e, w') \<Rightarrow>
          (Response 500 (Failure ''Error processing payload''),
           say (LogError ''Error processing webhook:'' e) w'))"

text \<open>
  \<open>PUT /messages/:messageId/status\<close>. \<open>io\<close> says whether the application has a socket
  server registered under \<open>socketio\<close> (\<open>index.ts\<close> registers one at start).
\<close>

definition updateMessageStatus ::
  "bool \<Rightarrow> int \<Rightarrow> string option \<Rightarrow> string option \<Rightarrow> world \<Rightarrow> response \<times> world" where
  "updateMessageStatus io now mid st w =
     (if falsy mid \<or> falsy st then
        (Response 400 (ErrorBody ''Message ID and status are required''), w)
      else if the st \<notin> set validStatuses then
        (Response 400 (ErrorBody ''Invalid status. Must be: sent, delivered, or read''), w)
      else
        (case findOneAndUpdate (the mid) (the st) now (store w) of
           (None, db) \<Rightarrow> (Response 404 (ErrorBody ''Message not found''), w\<lparr> store := db \<rparr>)
         | (Some updatedMessage, db) \<Rightarrow>
             (Response 200 (MessageJson updatedMessage),
              (if io then
                 emit (conversationId updatedMessage)
                   (MessageStatusUpdated (the mid) (the st) (updatedAt updatedMessage))
                   (w\<lparr> store := db \<rparr>)
               else w\<lparr> store := db \<rparr>))))"

text \<open>
  \<open>POST /messages\<close>. The identifier is \<open>msg_\<close>, the current time in decimal, \<open>_\<close> and
  nine random characters, the argument \<open>rnd\<close>.
\<close>

record MessageRequest =
  rq_conversationId :: string
  rq_from :: string
  rq_to :: string
  rq_body :: string
  rq_userName :: "string option"

fun showNat :: "nat \<Rightarrow> string" where
  "showNat n =
     (if n < 10 then [''0123456789'' ! n]
      else showNat (n div 10) @ [''0123456789'' ! (n mod 10)])"

definition showInt :: "int \<Rightarrow> string" where
  "showInt i = (if i < 0 then ''-'' @ showNat (nat (- i)) else showNat (nat i))"

definition sendMessage ::
  "bool \<Rightarrow> int \<Rightarrow> string \<Rightarrow> MessageRequest \<Rightarrow> world \<Rightarrow> response \<times> world" where
  "sendMessage io now rnd rq w =
     (if rq_conversationId rq = [] \<or> rq_from rq = [] \<or> rq_to rq = [] \<or> rq_body rq = [] then
        (Response 400 (ErrorBody ''Missing required fields: conversationId, from, to, body''), w)
      else
        (case save now
                \<lparr> new_conversationId = rq_conversationId rq,
                  new_messageId = ''msg_'' @ showInt now @ ''_'' @ rnd,
                  new_from = rq_from rq,
                  new_to = rq_to rq,
                  new_timestamp = Some now,
                  new_type = ''text'',
                  new_body = trim (rq_body rq),
                  new_status = ''sent'',
                  new_userName = orElse (rq_userName rq) ''Business'' \<rparr> of
           Inl e \<Rightarrow>
             (Response 500 (ErrorBody ''Failed to send message''),
              say (LogError ''Error sending message:'' e) w)
         | Inr savedMessage \<Rightarrow>
             (Response 201 (MessageJson savedMessage),
              (if io then
                 say (Log (''Emitted new message to conversation: '' @ rq_conversationId rq))
                   (emit (rq_conversationId rq) (NewMessage savedMessage)
                      (w\<lparr> store := store w @ [savedMessage] \<rparr>))
               else w\<lparr> store := store w @ [savedMessage] \<rparr>))))"

subsection \<open>The conversation list (\<open>GET /conversations\<close>)\<close>

text \<open>
  The aggregation pipeline, stage by stage. \<open>$sort\<close> is a stable sort here; the database
  leaves the order of documents with equal keys open. \<open>$group\<close> makes one document for
  each distinct \<open>conversationId\<close>, its accumulators running over the documents of the
  group in the order they arrive in.
\<close>

record customer =
  cu_userName :: string
  cu_from :: string

record conversationGroup =
  group_id :: string
  lastMessage :: message
  group_messageCount :: nat
  group_participants :: "string list"
  customerMessages :: "customer bson list"

definition customerEntry :: "message \<Rightarrow> customer bson" where
  "customerEntry m =
     (if userName m \<noteq> ''Business'' then Val \<lparr> cu_userName = userName m, cu_from = from' m \<rparr>
      else Null)"

definition groupStage :: "message list \<Rightarrow> conversationGroup list" where
  "groupStage docs =
     map (\<lambda>cid. let ms = filter (\<lambda>m. conversationId m = cid) docs in
            \<lparr> group_id = cid,
              lastMessage = last ms,
              group_messageCount = length ms,
              group_participants = remdups (map userName ms),
              customerMessages = map customerEntry ms \<rparr>)
         (remdups (map conversationId docs))"

text \<open>\<open>$arrayElemAt\<close> returns no value when the index is past the end of the array.\<close>

definition arrayElemAt :: "'a bson list \<Rightarrow> nat \<Rightarrow> 'a bson" where
  "arrayElemAt xs i = (if i < length xs then xs ! i else Missing)"

text \<open>\<open>$substrCP\<close> fails on a negative count.\<close>

definition substrCP :: "string \<Rightarrow> int \<Rightarrow> int \<Rightarrow> error + string" where
  "substrCP s start cnt =
     (if start < 0 \<or> cnt < 0 then Inl (AggregateError ''$substrCP'')
      else Inr (take (nat cnt) (drop (nat start) s)))"

text \<open>
  The \<open>userName\<close> of \<open>$project\<close>. \<open>{$eq: ['$$customer', null]}\<close> compares the value and
  its type, so it holds for \<open>null\<close> only, not for a value that is missing.
\<close>

definition projectUserName :: "conversationGroup \<Rightarrow> error + string bson" where
  "projectUserName g =
     (let customer = arrayElemAt (filter (\<lambda>msg. msg \<noteq> Null) (customerMessages g)) 0 in
      if customer = Null then
        (case substrCP (group_id g) 5 (int (length (group_id g)) - 5) of
           Inl e \<Rightarrow> Inl e
         | Inr number \<Rightarrow> Inr (Val (''+'' @ number)))
      else Inr (case customer of Val c \<Rightarrow> Val (cu_userName c) | _ \<Rightarrow> Missing))"

definition projectStage :: "conversationGroup \<Rightarrow> error + ConversationSummary" where
  "projectStage g =
     (case projectUserName g of
        Inl e \<Rightarrow> Inl e
      | Inr name \<Rightarrow>
          Inr \<lparr> cs_conversationId = group_id g,
                cs_userName = name,
                lastMessageBody = body (lastMessage g),
                lastTimestamp = timestamp (lastMessage g),
                messageCount = group_messageCount g,
                participants = group_participants g \<rparr>)"

fun collect :: "(error + 'a) list \<Rightarrow> error + 'a list" where
  "collect [] = Inr []"
| "collect (Inl e # rs) = Inl e"
| "collect (Inr x # rs) = (case collect rs of Inl e \<Rightarrow> Inl e | Inr xs \<Rightarrow> Inr (x # xs))"

definition aggregateConversations :: "message list \<Rightarrow> error + ConversationSummary list" where
  "aggregateConversations db =
     (case collect (map projectStage (groupStage (sort_key timestamp db))) of
        Inl e \<Rightarrow> Inl e
      | Inr cs \<Rightarrow> Inr (sort_key (\<lambda>c. - lastTimestamp c) cs))"

definition getConversations :: "world \<Rightarrow> response \<times> world" where
  "getConversations w =
     (case aggregateConversations (store w) of
        Inl e \<Rightarrow>
          (Response 500 (ErrorBody ''Failed to fetch conversations''),
           say (LogError ''Error fetching conversations:'' e) w)
      | Inr conversations \<Rightarrow> (Response 200 (Conversations conversations), w))"

section \<open>Vocabulary of the statements\<close>

text \<open>The \<open>value\<close> that \<open>processWebhookPayload\<close> hands on: the first change of the first entry.\<close>

definition payloadValue :: "WebhookPayload \<Rightarrow> WhatsAppValue option" where
  "payloadValue payload =
     (case first (Option.bind (metaData payload) entry) of
        None \<Rightarrow> None
      | Some en \<Rightarrow> map_option change_value (first (changes en)))"

definition payloadOf :: "WhatsAppValue \<Rightarrow> WebhookPayload" where
  "payloadOf v =
     \<lparr> metaData = Some \<lparr> entry = Some [\<lparr> changes = Some [\<lparr> change_field = ''messages'', change_value = v \<rparr>] \<rparr>] \<rparr> \<rparr>"

text \<open>The identifier a status record names: \<open>statusUpdate.id || statusUpdate.meta_msg_id\<close>.\<close>

definition statusTarget :: "WhatsAppStatus \<Rightarrow> string option" where
  "statusTarget statusUpdate = orElseOpt (Some (st_id statusUpdate)) (st_meta_msg_id statusUpdate)"

text \<open>
  The summary of one conversation, read off the documents sorted by timestamp: what the
  pipeline computes for the group of \<open>cid\<close>.
\<close>

definition summaryOf :: "message list \<Rightarrow> string \<Rightarrow> ConversationSummary" where
  "summaryOf docs cid =
     (let ms = filter (\<lambda>m. conversationId m = cid) docs in
      \<lparr> cs_conversationId = cid,
        cs_userName = (case filter (\<lambda>m. userName m \<noteq> ''Business'') ms of
                         [] \<Rightarrow> Missing | m # _ \<Rightarrow> Val (userName m)),
        lastMessageBody = body (last ms),
        lastTimestamp = timestamp (last ms),
        messageCount = length ms,
        participants = remdups (map userName ms) \<rparr>)"

subsection \<open>Example inputs\<close>

text \<open>The scenario of the specification: a text message \<open>m1\<close> from \<open>5551234\<close>.\<close>

definition exampleMessage :: WhatsAppMessage where
  "exampleMessage =
     \<lparr> msg_id = ''m1'', msg_from = ''5551234'', msg_to = Some ''BUSINESS'',
       msg_timestamp = ''1000'', msg_type = ''text'', msg_text = Some (WhatsAppText ''hi''),
       msg_image = None, msg_document = None, msg_video = None \<rparr>"

definition exampleValue :: WhatsAppValue where
  "exampleValue =
     \<lparr> messaging_product = None, metadata = None, contacts = None,
       messages = Some [exampleMessage], statuses = None \<rparr>"

definition emptyWorld :: world where
  "emptyWorld = \<lparr> store = [], console = [], emitted = [] \<rparr>"

definition storedExample :: message where
  "storedExample =
     \<lparr> conversationId = ''conv_5551234'', messageId = ''m1'', from' = ''5551234'',
       to' = ''918329446654'', timestamp = 1000000, type' = ''text'', body = ''hi'',
       status = ''sent'', userName = ''Unknown User'', createdAt = 5, updatedAt = 5 \<rparr>"

definition exampleWorld :: world where
  "exampleWorld = \<lparr> store = [storedExample], console = [], emitted = [] \<rparr>"



definition valueWith :: "WhatsAppMetadata option \<Rightarrow> WhatsAppMessage \<Rightarrow> WhatsAppValue" where
  "valueWith md m =
     \<lparr> messaging_product = Some ''whatsapp'', metadata = md, contacts = None,
       messages = Some [m], statuses = None \<rparr>"

definition mediaMessage ::
  "string \<Rightarrow> WhatsAppImage option \<Rightarrow> WhatsAppDocument option \<Rightarrow> WhatsAppVideo option \<Rightarrow> WhatsAppMessage" where
  "mediaMessage ty img doc vid =
     \<lparr> msg_id = ''m3'', msg_from = ''5551234'', msg_to = None, msg_timestamp = ''1003'',
       msg_type = ty, msg_text = None, msg_image = img, msg_document = doc, msg_video = vid \<rparr>"

definition fromTo :: "string \<Rightarrow> string option \<Rightarrow> WhatsAppMessage" where
  "fromTo f t =
     \<lparr> msg_id = ''m4'', msg_from = f, msg_to = t, msg_timestamp = ''1004'',
       msg_type = ''text'', msg_text = Some (WhatsAppText ''hello''), msg_image = None,
       msg_document = None, msg_video = None \<rparr>"


text \<open>Status envelopes, and the store after \<open>m1\<close> was read.\<close>

definition statusRecord :: "string \<Rightarrow> string option \<Rightarrow> string \<Rightarrow> WhatsAppStatus" where
  "statusRecord mid meta st =
     \<lparr> st_id = mid, st_meta_msg_id = meta, st_status = st,
       st_timestamp = ''1001'', st_recipient_id = ''5551234'' \<rparr>"

definition statusValue :: "string \<Rightarrow> string option \<Rightarrow> string \<Rightarrow> WhatsAppValue" where
  "statusValue mid meta st =
     \<lparr> messaging_product = Some ''whatsapp'', metadata = None, contacts = None, messages = None,
       statuses = Some [statusRecord mid meta st] \<rparr>"

definition readWorld :: world where
  "readWorld =
     \<lparr> store = [storedExample\<lparr> status := ''read'', updatedAt := 6 \<rparr>], console = [], emitted = [] \<rparr>"

text \<open>A message sent through \<open>POST /messages\<close> with no \<open>userName\<close>, and the store holding it.\<close>

definition sendRequest :: MessageRequest where
  "sendRequest =
     \<lparr> rq_conversationId = ''conv_5551234'', rq_from = ''918329446654'', rq_to = ''5551234'',
       rq_body = ''hello'', rq_userName = None \<rparr>"

definition sentExample :: message where
  "sentExample =
     \<lparr> conversationId = ''conv_5551234'', messageId = ''msg_5_abcdefghi'',
       from' = ''918329446654'', to' = ''5551234'', timestamp = 5, type' = ''text'',
       body = ''hello'', status = ''sent'', userName = ''Business'', createdAt = 5,
       updatedAt = 5 \<rparr>"

definition businessOnlyWorld :: world where
  "businessOnlyWorld = \<lparr> store = [sentExample], console = [], emitted = [] \<rparr>"

section \<open>Facts about the store\<close>

lemma updateFirst_no_match: "findOne mid db = None \<Longrightarrow> updateFirst mid f db = db"
  by (induction db) (auto simp: findOne_def split: if_splits)

lemma updateFirst_split:
  "findOne mid db = Some m \<Longrightarrow>
   \<exists>pre post. db = pre @ m # post \<and> findOne mid pre = None \<and>
     updateFirst mid f db = pre @ f m # post"
proof (induction db)
  case Nil
  then show ?case by (simp add: findOne_def)
next
  case (Cons a db)
  show ?case
  proof (cases "messageId a = mid")
    case True
    with Cons.prems have "a = m" by (simp add: findOne_def)
    with True have "a # db = [] @ m # db \<and> findOne mid [] = None \<and>
      updateFirst mid f (a # db) = [] @ f m # db"
      by (simp add: findOne_def)
    then show ?thesis by blast
  next
    case False
    with Cons.prems have "findOne mid db = Some m" by (simp add: findOne_def)
    from Cons.IH [OF this] obtain pre post where
      h: "db = pre @ m # post" "findOne mid pre = None" "updateFirst mid f db = pre @ f m # post"
      by blast
    with False have "a # db = (a # pre) @ m # post \<and> findOne mid (a # pre) = None \<and>
      updateFirst mid f (a # db) = (a # pre) @ f m # post"
      by (simp add: findOne_def)
    then show ?thesis by blast
  qed
qed

section \<open>Facts about the dispatch\<close>

lemma payloadValue_payloadOf: "payloadValue (payloadOf v) = Some v"
  by (simp add: payloadValue_def payloadOf_def first_def)

lemma webhook_message_path:
  assumes "payloadValue payload = Some v" and "messages v \<noteq> None"
  shows "processWebhookPayload now payload w =
     (case processMessage now v w of
        (Inl e, w') \<Rightarrow> (Inl e, say (LogError ''Error processing webhook payload:'' e) w')
      | (Inr u, w') \<Rightarrow> (Inr u, w'))"
  using assms
  by (auto simp: processWebhookPayload_def payloadValue_def split: option.splits)

lemma webhook_status_path:
  assumes "payloadValue payload = Some v" and "messages v = None" and "statuses v \<noteq> None"
  shows "processWebhookPayload now payload w =
     (case processStatusUpdate now v w of
        (Inl e, w') \<Rightarrow> (Inl e, say (LogError ''Error processing webhook payload:'' e) w')
      | (Inr u, w') \<Rightarrow> (Inr u, w'))"
  using assms
  by (auto simp: processWebhookPayload_def payloadValue_def split: option.splits)

section \<open>Duplicate messages\<close>

text \<open>
  C4. A new-message envelope whose message identifier is already in the store is a
  no-op: the webhook answers 200 with the success body, and the state after it is the
  state before it with two console lines added. Nothing is inserted: the store is the
  same list, so the number of records and every field of the existing record are
  unchanged, and nothing is emitted.
\<close>

theorem duplicate_message_noop:
  assumes "payloadValue payload = Some v"
    and "first (messages v) = Some message"
    and "msg_id message \<noteq> []"
    and "findOne (msg_id message) (store w) = Some existing"
  shows "webhook now payload w =
           (Response 200 (Success ''Payload processed successfully''),
            w\<lparr> console := console w @
                 [Log ''Received webhook payload'',
                  Log (''Message '' @ msg_id message @ '' already exists, skipping'')] \<rparr>)
         \<and> store (snd (webhook now payload w)) = store w
         \<and> length (store (snd (webhook now payload w))) = length (store w)
         \<and> findOne (msg_id message) (store (snd (webhook now payload w))) = Some existing
         \<and> emitted (snd (webhook now payload w)) = emitted w"
proof -
  let ?w = "say (Log ''Received webhook payload'') w"
  from assms(2) have m: "messages v \<noteq> None"
    by (auto simp: first_def split: option.splits)
  have s: "store ?w = store w" by (simp add: say_def)
  have "processMessage now v ?w =
      (Inr (), say (Log (''Message '' @ msg_id message @ '' already exists, skipping'')) ?w)"
    using assms(2,3,4) by (simp add: processMessage_def s)
  then have "webhook now payload w =
           (Response 200 (Success ''Payload processed successfully''),
            say (Log (''Message '' @ msg_id message @ '' already exists, skipping'')) ?w)"
    by (simp add: webhook_def webhook_message_path [OF assms(1) m])
  then show ?thesis using assms(4) by (simp add: say_def)
qed

theorem duplicate_message_noop_witness:
  "payloadValue (payloadOf exampleValue) = Some exampleValue
   \<and> first (messages exampleValue) = Some exampleMessage
   \<and> msg_id exampleMessage \<noteq> []
   \<and> findOne (msg_id exampleMessage) (store exampleWorld) = Some storedExample
   \<and> webhook 7 (payloadOf exampleValue) exampleWorld =
       (Response 200 (Success ''Payload processed successfully''),
        \<lparr> store = [storedExample],
          console = [Log ''Received webhook payload'', Log ''Message m1 already exists, skipping''],
          emitted = [] \<rparr>)"
proof -
  have h1: "payloadValue (payloadOf exampleValue) = Some exampleValue"
    by (rule payloadValue_payloadOf)
  have h2: "first (messages exampleValue) = Some exampleMessage"
    by (simp add: exampleValue_def first_def)
  have h3: "msg_id exampleMessage \<noteq> []"
    by (simp add: exampleMessage_def)
  have h4: "findOne (msg_id exampleMessage) (store exampleWorld) = Some storedExample"
    by (simp add: exampleMessage_def exampleWorld_def storedExample_def findOne_def)
  from duplicate_message_noop [OF h1 h2 h3 h4, of 7] h1 h2 h3 h4
  show ?thesis by (simp add: exampleWorld_def exampleMessage_def)
qed

section \<open>Facts about a new message\<close>

lemma orElse_simps:
  "orElse None d = d" "orElse (Some []) d = d" "s \<noteq> [] \<Longrightarrow> orElse (Some s) d = s"
  by (simp_all add: orElse_def falsy_def)


lemma save_fields:
  assumes "save now d = Inr r"
  shows "conversationId r = new_conversationId d" "messageId r = new_messageId d"
    "from' r = new_from d" "to' r = new_to d" "type' r = new_type d" "body r = new_body d"
    "status r = new_status d" "userName r = new_userName d"
  using assms by (auto simp: save_def split: if_splits)

lemma buildMessage_fields:
  "new_conversationId (buildMessage v message) =
     ''conv_'' @ userNumber message (businessNumber (metadata v))"
  "new_messageId (buildMessage v message) = msg_id message"
  "new_from (buildMessage v message) = msg_from message"
  "new_to (buildMessage v message) =
     (if msg_from message = businessNumber (metadata v)
      then userNumber message (businessNumber (metadata v)) else businessNumber (metadata v))"
  "new_timestamp (buildMessage v message) = newDateSeconds (parseInt (msg_timestamp message))"
  "new_type (buildMessage v message) = orElse (Some (msg_type message)) ''text''"
  "new_body (buildMessage v message) = messageBody message"
  "new_status (buildMessage v message) = ''sent''"
  "new_userName (buildMessage v message) =
     orElse (map_option profile_name (first (contacts v)))
       (if msg_from message = businessNumber (metadata v) then ''Business'' else ''Unknown User'')"
  by (simp_all add: buildMessage_def Let_def)



lemma processMessage_inserts:
  assumes "first (messages v) = Some message" and "msg_id message \<noteq> []"
    and "findOne (msg_id message) (store w) = None"
    and "save now (buildMessage v message) = Inr r"
  shows "processMessage now v w =
     (Inr (), w\<lparr> store := store w @ [r],
                 console := console w @
                   [Log (''Inserted message: '' @ msg_id message @ '' from '' @ userName r),
                    Log (contentLine (messageBody message))] \<rparr>)"
  using assms by (simp add: processMessage_def say_def)

lemma first_valueWith: "first (messages (valueWith md m)) = Some m"
  by (simp add: valueWith_def first_def)

lemma findOne_emptyWorld: "findOne mid (store emptyWorld) = None"
  by (simp add: emptyWorld_def findOne_def)

lemmas eval_defs =
  save_def invalidPaths_def buildMessage_def businessNumber_def userNumber_def
  messageBody_def orElse_def orElseOpt_def falsy_def first_def statusEnum_def
  newDateSeconds_def parseInt_def isWhiteSpace_def isDigit_def digitVal_def digitsVal_def
  toUpperCase_def upperChar_def valueWith_def mediaMessage_def fromTo_def

lemma save_mediaMessage:
  "\<exists>r. save now (buildMessage (valueWith None (mediaMessage ty img doc vid))
            (mediaMessage ty img doc vid)) = Inr r"
  by (simp add: eval_defs Let_def)



section \<open>New messages\<close>




text \<open>
  C5. The body of the record that \<open>processMessage\<close> stores, by the type of the message:
  the text body for \<open>text\<close> (empty when there is none); the caption for \<open>image\<close> and
  \<open>video\<close> and the file name for \<open>document\<close> when it is there and not empty, else
  \<open>[Image]\<close>, \<open>[Video]\<close>, \<open>[Document]\<close>; \<open>[Voice Message]\<close> for \<open>audio\<close>; for any
  other type the type in upper case between brackets.
\<close>

theorem body_by_content_type:
  assumes "first (messages v) = Some message" and "msg_id message \<noteq> []"
    and "findOne (msg_id message) (store w) = None"
    and "save now (buildMessage v message) = Inr r"
  shows "store (snd (processMessage now v w)) = store w @ [r]
     \<and> (msg_type message = ''text'' \<longrightarrow>
          body r = (case msg_text message of None \<Rightarrow> [] | Some t \<Rightarrow> text_body t))
     \<and> (msg_type message = ''image'' \<longrightarrow>
          body r = (if falsy (Option.bind (msg_image message) image_caption) then ''[Image]''
                    else the (Option.bind (msg_image message) image_caption)))
     \<and> (msg_type message = ''document'' \<longrightarrow>
          body r = (if falsy (Option.bind (msg_document message) document_filename) then ''[Document]''
                    else the (Option.bind (msg_document message) document_filename)))
     \<and> (msg_type message = ''video'' \<longrightarrow>
          body r = (if falsy (Option.bind (msg_video message) video_caption) then ''[Video]''
                    else the (Option.bind (msg_video message) video_caption)))
     \<and> (msg_type message = ''audio'' \<longrightarrow> body r = ''[Voice Message]'')
     \<and> (msg_type message \<notin> {''text'', ''image'', ''document'', ''audio'', ''video''} \<longrightarrow>
          body r = ''['' @ toUpperCase (msg_type message) @ '']'')"
proof -
  have b: "body r = messageBody message"
    using save_fields(6) [OF assms(4)] by (simp add: buildMessage_fields)
  have st: "store (snd (processMessage now v w)) = store w @ [r]"
    by (simp add: processMessage_inserts [OF assms])
  have t: "msg_type message = ''text'' \<Longrightarrow>
      messageBody message = (case msg_text message of None \<Rightarrow> [] | Some t \<Rightarrow> text_body t)"
    by (simp add: messageBody_def orElse_def falsy_def split: option.splits)
  have i: "msg_type message = ''image'' \<Longrightarrow> messageBody message =
      (if falsy (Option.bind (msg_image message) image_caption) then ''[Image]''
       else the (Option.bind (msg_image message) image_caption))"
    by (simp add: messageBody_def orElse_def)
  have d: "msg_type message = ''document'' \<Longrightarrow> messageBody message =
      (if falsy (Option.bind (msg_document message) document_filename) then ''[Document]''
       else the (Option.bind (msg_document message) document_filename))"
    by (simp add: messageBody_def orElse_def)
  have vd: "msg_type message = ''video'' \<Longrightarrow> messageBody message =
      (if falsy (Option.bind (msg_video message) video_caption) then ''[Video]''
       else the (Option.bind (msg_video message) video_caption))"
    by (simp add: messageBody_def orElse_def)
  have a: "msg_type message = ''audio'' \<Longrightarrow> messageBody message = ''[Voice Message]''"
    by (simp add: messageBody_def)
  have o: "msg_type message \<notin> {''text'', ''image'', ''document'', ''audio'', ''video''} \<Longrightarrow>
      messageBody message = ''['' @ toUpperCase (msg_type message) @ '']''"
    by (simp add: messageBody_def)
  from st t i d vd a o show ?thesis unfolding b by blast
qed

theorem body_by_content_type_witness:
  "(\<exists>r. first (messages exampleValue) = Some exampleMessage \<and> msg_id exampleMessage \<noteq> []
        \<and> findOne (msg_id exampleMessage) (store emptyWorld) = None
        \<and> save 5 (buildMessage exampleValue exampleMessage) = Inr r
        \<and> store (snd (processMessage 5 exampleValue emptyWorld)) = [r] \<and> body r = ''hi'')
   \<and> (\<exists>r. store (snd (processMessage 5 (valueWith None (mediaMessage ''image'' (Some (WhatsAppImage None)) None None)) emptyWorld)) = [r]
        \<and> body r = ''[Image]'')
   \<and> (\<exists>r. store (snd (processMessage 5 (valueWith None (mediaMessage ''image'' (Some (WhatsAppImage (Some ''cat''))) None None)) emptyWorld)) = [r]
        \<and> body r = ''cat'')
   \<and> (\<exists>r. store (snd (processMessage 5 (valueWith None (mediaMessage ''document'' None (Some (WhatsAppDocument (Some ''report.pdf''))) None)) emptyWorld)) = [r]
        \<and> body r = ''report.pdf'')
   \<and> (\<exists>r. store (snd (processMessage 5 (valueWith None (mediaMessage ''video'' None None None)) emptyWorld)) = [r]
        \<and> body r = ''[Video]'')
   \<and> (\<exists>r. store (snd (processMessage 5 (valueWith None (mediaMessage ''audio'' None None None)) emptyWorld)) = [r]
        \<and> body r = ''[Voice Message]'')
   \<and> (\<exists>r. store (snd (processMessage 5 (valueWith None (mediaMessage ''sticker'' None None None)) emptyWorld)) = [r]
        \<and> body r = ''[STICKER]'')"
proof -
  have e1: "first (messages exampleValue) = Some exampleMessage"
    by (simp add: exampleValue_def first_def)
  have e2: "msg_id exampleMessage \<noteq> []" by (simp add: exampleMessage_def)
  have e4: "save 5 (buildMessage exampleValue exampleMessage) = Inr storedExample"
    by (simp add: eval_defs Let_def exampleValue_def exampleMessage_def storedExample_def)
  have m2: "msg_id (mediaMessage ty img doc vid) \<noteq> []" for ty img doc vid
    by (simp add: mediaMessage_def)
  have ty: "msg_type (mediaMessage ty img doc vid) = ty" for ty img doc vid
    by (simp add: mediaMessage_def)
  have c1: "\<exists>r. first (messages exampleValue) = Some exampleMessage \<and> msg_id exampleMessage \<noteq> []
        \<and> findOne (msg_id exampleMessage) (store emptyWorld) = None
        \<and> save 5 (buildMessage exampleValue exampleMessage) = Inr r
        \<and> store (snd (processMessage 5 exampleValue emptyWorld)) = [r] \<and> body r = ''hi''"
    using body_by_content_type [OF e1 e2 findOne_emptyWorld e4] e1 e2 e4 findOne_emptyWorld
    by (simp add: emptyWorld_def exampleMessage_def)
  have c2: "\<exists>r. store (snd (processMessage 5 (valueWith None (mediaMessage ''image'' (Some (WhatsAppImage None)) None None)) emptyWorld)) = [r]
        \<and> body r = ''[Image]''"
  proof -
    from save_mediaMessage obtain r where
      "save 5 (buildMessage (valueWith None (mediaMessage ''image'' (Some (WhatsAppImage None)) None None))
         (mediaMessage ''image'' (Some (WhatsAppImage None)) None None)) = Inr r" by blast
    from body_by_content_type [OF first_valueWith m2 findOne_emptyWorld this]
    show ?thesis by (simp add: emptyWorld_def mediaMessage_def falsy_def)
  qed
  have c3: "\<exists>r. store (snd (processMessage 5 (valueWith None (mediaMessage ''image'' (Some (WhatsAppImage (Some ''cat''))) None None)) emptyWorld)) = [r]
        \<and> body r = ''cat''"
  proof -
    from save_mediaMessage obtain r where
      "save 5 (buildMessage (valueWith None (mediaMessage ''image'' (Some (WhatsAppImage (Some ''cat''))) None None))
         (mediaMessage ''image'' (Some (WhatsAppImage (Some ''cat''))) None None)) = Inr r" by blast
    from body_by_content_type [OF first_valueWith m2 findOne_emptyWorld this]
    show ?thesis by (simp add: emptyWorld_def mediaMessage_def falsy_def)
  qed
  have c4: "\<exists>r. store (snd (processMessage 5 (valueWith None (mediaMessage ''document'' None (Some (WhatsAppDocument (Some ''report.pdf''))) None)) emptyWorld)) = [r]
        \<and> body r = ''report.pdf''"
  proof -
    from save_mediaMessage obtain r where
      "save 5 (buildMessage (valueWith None (mediaMessage ''document'' None (Some (WhatsAppDocument (Some ''report.pdf''))) None))
         (mediaMessage ''document'' None (Some (WhatsAppDocument (Some ''report.pdf''))) None)) = Inr r" by blast
    from body_by_content_type [OF first_valueWith m2 findOne_emptyWorld this]
    show ?thesis by (simp add: emptyWorld_def mediaMessage_def falsy_def)
  qed
  have c5: "\<exists>r. store (snd (processMessage 5 (valueWith None (mediaMessage ''video'' None None None)) emptyWorld)) = [r]
        \<and> body r = ''[Video]''"
  proof -
    from save_mediaMessage obtain r where
      "save 5 (buildMessage (valueWith None (mediaMessage ''video'' None None None))
         (mediaMessage ''video'' None None None)) = Inr r" by blast
    from body_by_content_type [OF first_valueWith m2 findOne_emptyWorld this]
    show ?thesis by (simp add: emptyWorld_def mediaMessage_def falsy_def)
  qed
  have c6: "\<exists>r. store (snd (processMessage 5 (valueWith None (mediaMessage ''audio'' None None None)) emptyWorld)) = [r]
        \<and> body r = ''[Voice Message]''"
  proof -
    from save_mediaMessage obtain r where
      "save 5 (buildMessage (valueWith None (mediaMessage ''audio'' None None None))
         (mediaMessage ''audio'' None None None)) = Inr r" by blast
    from body_by_content_type [OF first_valueWith m2 findOne_emptyWorld this]
    show ?thesis by (simp add: emptyWorld_def mediaMessage_def falsy_def)
  qed
  have c7: "\<exists>r. store (snd (processMessage 5 (valueWith None (mediaMessage ''sticker'' None None None)) emptyWorld)) = [r]
        \<and> body r = ''[STICKER]''"
  proof -
    from save_mediaMessage obtain r where
      "save 5 (buildMessage (valueWith None (mediaMessage ''sticker'' None None None))
         (mediaMessage ''sticker'' None None None)) = Inr r" by blast
    from body_by_content_type [OF first_valueWith m2 findOne_emptyWorld this]
    show ?thesis by (simp add: emptyWorld_def mediaMessage_def toUpperCase_def upperChar_def)
  qed
  from c1 c2 c3 c4 c5 c6 c7 show ?thesis by blast
qed

text \<open>
  C10. The business number is \<open>metadata.phone_number_id\<close> when that is there and not
  empty, else \<open>metadata.display_phone_number\<close> when that is there and not empty, else
  the literal \<open>918329446654\<close>. The sender is compared with it by equality of the raw
  strings: when they differ the stored \<open>conversationId\<close> is \<open>conv_\<close> followed by the
  sender exactly as received, the recipient is the business number and the fallback name
  is \<open>Unknown User\<close>; when they are equal the conversation is named after the recipient
  as received and the fallback name is \<open>Business\<close>. No number is normalised: the
  whenever \<open>extractPhoneNumber\<close> would change the sender, the stored \<open>conversationId\<close>
  is not the one that \<open>getConversationId\<close> gives. The sender \<open>+111\<close> is not the
  business number \<open>111\<close> and gets the conversation \<open>conv_+111\<close>, where
  \<open>getConversationId\<close> gives \<open>conv_111\<close>.
\<close>

theorem business_number_raw_comparison:
  assumes "first (messages v) = Some message" and "msg_id message \<noteq> []"
    and "findOne (msg_id message) (store w) = None"
    and "save now (buildMessage v message) = Inr r"
  shows "store (snd (processMessage now v w)) = store w @ [r]
     \<and> (\<forall>md p. metadata v = Some md \<and> phone_number_id md = Some p \<and> p \<noteq> [] \<longrightarrow>
          businessNumber (metadata v) = p)
     \<and> (\<forall>md d. metadata v = Some md \<and> falsy (phone_number_id md) \<and>
               display_phone_number md = Some d \<and> d \<noteq> [] \<longrightarrow>
          businessNumber (metadata v) = d)
     \<and> (\<forall>md. metadata v = Some md \<and> falsy (phone_number_id md) \<and>
               falsy (display_phone_number md) \<longrightarrow>
          businessNumber (metadata v) = ''918329446654'')
     \<and> (metadata v = None \<longrightarrow> businessNumber (metadata v) = ''918329446654'')
     \<and> (msg_from message \<noteq> businessNumber (metadata v) \<longrightarrow>
          conversationId r = ''conv_'' @ msg_from message
          \<and> to' r = businessNumber (metadata v)
          \<and> (first (contacts v) = None \<longrightarrow> userName r = ''Unknown User'')
          \<and> (extractPhoneNumber (msg_from message) \<noteq> Some (msg_from message) \<longrightarrow>
                conversationId r \<noteq>
                getConversationId (msg_from message) (businessNumber (metadata v))))
     \<and> (msg_from message = businessNumber (metadata v) \<longrightarrow>
          conversationId r = ''conv_'' @ (case msg_to message of None \<Rightarrow> [] | Some t \<Rightarrow> t)
          \<and> to' r = (case msg_to message of None \<Rightarrow> [] | Some t \<Rightarrow> t)
          \<and> (first (contacts v) = None \<longrightarrow> userName r = ''Business''))"
proof -
  have st: "store (snd (processMessage now v w)) = store w @ [r]"
    by (simp add: processMessage_inserts [OF assms])
  have b1: "\<forall>md p. metadata v = Some md \<and> phone_number_id md = Some p \<and> p \<noteq> [] \<longrightarrow>
          businessNumber (metadata v) = p"
    by (simp add: businessNumber_def orElse_def orElseOpt_def falsy_def)
  have b2: "\<forall>md d. metadata v = Some md \<and> falsy (phone_number_id md) \<and>
               display_phone_number md = Some d \<and> d \<noteq> [] \<longrightarrow>
          businessNumber (metadata v) = d"
    by (auto simp: businessNumber_def orElse_def orElseOpt_def falsy_def split: option.splits)
  have b3: "\<forall>md. metadata v = Some md \<and> falsy (phone_number_id md) \<and>
               falsy (display_phone_number md) \<longrightarrow>
          businessNumber (metadata v) = ''918329446654''"
    by (auto simp: businessNumber_def orElse_def orElseOpt_def falsy_def split: option.splits)
  have b4: "metadata v = None \<longrightarrow> businessNumber (metadata v) = ''918329446654''"
    by (simp add: businessNumber_def orElse_def orElseOpt_def falsy_def)
  have o: "orElse (msg_to message) [] = (case msg_to message of None \<Rightarrow> [] | Some t \<Rightarrow> t)"
    by (simp add: orElse_def falsy_def split: option.splits)
  have n: "''conv_'' @ msg_from message \<noteq>
      getConversationId (msg_from message) (businessNumber (metadata v))"
    if "extractPhoneNumber (msg_from message) \<noteq> Some (msg_from message)"
    using that
    by (cases "extractPhoneNumber (msg_from message)")
      (auto simp: getConversationId_def extractPhoneNumber_def split: if_splits)
  have c1: "msg_from message \<noteq> businessNumber (metadata v) \<longrightarrow>
          conversationId r = ''conv_'' @ msg_from message
          \<and> to' r = businessNumber (metadata v)
          \<and> (first (contacts v) = None \<longrightarrow> userName r = ''Unknown User'')
          \<and> (extractPhoneNumber (msg_from message) \<noteq> Some (msg_from message) \<longrightarrow>
                conversationId r \<noteq>
                getConversationId (msg_from message) (businessNumber (metadata v)))"
    using save_fields [OF assms(4)] n
    by (simp add: buildMessage_fields userNumber_def orElse_simps)
  have c2: "msg_from message = businessNumber (metadata v) \<longrightarrow>
          conversationId r = ''conv_'' @ (case msg_to message of None \<Rightarrow> [] | Some t \<Rightarrow> t)
          \<and> to' r = (case msg_to message of None \<Rightarrow> [] | Some t \<Rightarrow> t)
          \<and> (first (contacts v) = None \<longrightarrow> userName r = ''Business'')"
    using save_fields [OF assms(4)]
    by (simp add: buildMessage_fields userNumber_def orElse_simps o)
  from st b1 b2 b3 b4 c1 c2 show ?thesis by blast
qed

theorem business_number_raw_comparison_witness:
  "(\<exists>r. save 5 (buildMessage (valueWith (Some \<lparr> display_phone_number = Some ''222'', phone_number_id = Some ''111'' \<rparr>) (fromTo ''+111'' None))
              (fromTo ''+111'' None)) = Inr r
        \<and> store (snd (processMessage 5 (valueWith (Some \<lparr> display_phone_number = Some ''222'', phone_number_id = Some ''111'' \<rparr>) (fromTo ''+111'' None)) emptyWorld)) = [r]
        \<and> conversationId r = ''conv_+111'' \<and> to' r = ''111'' \<and> userName r = ''Unknown User''
        \<and> extractPhoneNumber ''+111'' = Some ''111''
        \<and> getConversationId ''+111'' ''111'' = ''conv_111''
        \<and> conversationId r \<noteq> getConversationId ''+111'' ''111'')
   \<and> (\<exists>r. store (snd (processMessage 5 (valueWith (Some \<lparr> display_phone_number = Some ''222'', phone_number_id = Some [] \<rparr>) (fromTo ''222'' (Some ''333''))) emptyWorld)) = [r]
        \<and> conversationId r = ''conv_333'' \<and> to' r = ''333'' \<and> userName r = ''Business'')
   \<and> (\<exists>r. store (snd (processMessage 5 (valueWith (Some \<lparr> display_phone_number = None, phone_number_id = None \<rparr>) (fromTo ''918329446654'' (Some ''333''))) emptyWorld)) = [r]
        \<and> conversationId r = ''conv_333'' \<and> to' r = ''333'' \<and> userName r = ''Business'')
   \<and> (\<exists>r. store (snd (processMessage 5 (valueWith None (fromTo ''333'' None)) emptyWorld)) = [r]
        \<and> conversationId r = ''conv_333'' \<and> to' r = ''918329446654'' \<and> userName r = ''Unknown User'')"
proof -
  have m2: "msg_id (fromTo f t) \<noteq> []" for f t by (simp add: fromTo_def)
  have c0: "first (contacts (valueWith md m)) = None" for md m
    by (simp add: valueWith_def first_def)
  have md: "metadata (valueWith md m) = md" for md m by (simp add: valueWith_def)
  have x: "extractPhoneNumber ''+111'' = Some ''111''"
    by (simp add: extractPhoneNumber_def isDigit_def digitVal_def)
  have g: "getConversationId ''+111'' ''111'' = ''conv_111''"
    by (simp add: getConversationId_def x)
  have c1: "\<exists>r. save 5 (buildMessage (valueWith (Some \<lparr> display_phone_number = Some ''222'', phone_number_id = Some ''111'' \<rparr>) (fromTo ''+111'' None))
              (fromTo ''+111'' None)) = Inr r
        \<and> store (snd (processMessage 5 (valueWith (Some \<lparr> display_phone_number = Some ''222'', phone_number_id = Some ''111'' \<rparr>) (fromTo ''+111'' None)) emptyWorld)) = [r]
        \<and> conversationId r = ''conv_+111'' \<and> to' r = ''111'' \<and> userName r = ''Unknown User''
        \<and> extractPhoneNumber ''+111'' = Some ''111''
        \<and> getConversationId ''+111'' ''111'' = ''conv_111''
        \<and> conversationId r \<noteq> getConversationId ''+111'' ''111''"
  proof -
    obtain r where s: "save 5 (buildMessage (valueWith (Some \<lparr> display_phone_number = Some ''222'', phone_number_id = Some ''111'' \<rparr>) (fromTo ''+111'' None))
              (fromTo ''+111'' None)) = Inr r"
      by (simp add: eval_defs Let_def)
    from business_number_raw_comparison [OF first_valueWith m2 findOne_emptyWorld s] s g x
    show ?thesis by (simp add: emptyWorld_def fromTo_def c0 md)
  qed
  have c2: "\<exists>r. store (snd (processMessage 5 (valueWith (Some \<lparr> display_phone_number = Some ''222'', phone_number_id = Some [] \<rparr>) (fromTo ''222'' (Some ''333''))) emptyWorld)) = [r]
        \<and> conversationId r = ''conv_333'' \<and> to' r = ''333'' \<and> userName r = ''Business''"
  proof -
    obtain r where s: "save 5 (buildMessage (valueWith (Some \<lparr> display_phone_number = Some ''222'', phone_number_id = Some [] \<rparr>) (fromTo ''222'' (Some ''333'')))
              (fromTo ''222'' (Some ''333''))) = Inr r"
      by (simp add: eval_defs Let_def)
    from business_number_raw_comparison [OF first_valueWith m2 findOne_emptyWorld s]
    show ?thesis by (simp add: emptyWorld_def fromTo_def c0 md falsy_def)
  qed
  have c3: "\<exists>r. store (snd (processMessage 5 (valueWith (Some \<lparr> display_phone_number = None, phone_number_id = None \<rparr>) (fromTo ''918329446654'' (Some ''333''))) emptyWorld)) = [r]
        \<and> conversationId r = ''conv_333'' \<and> to' r = ''333'' \<and> userName r = ''Business''"
  proof -
    obtain r where s: "save 5 (buildMessage (valueWith (Some \<lparr> display_phone_number = None, phone_number_id = None \<rparr>) (fromTo ''918329446654'' (Some ''333'')))
              (fromTo ''918329446654'' (Some ''333''))) = Inr r"
      by (simp add: eval_defs Let_def)
    from business_number_raw_comparison [OF first_valueWith m2 findOne_emptyWorld s]
    show ?thesis by (simp add: emptyWorld_def fromTo_def c0 md falsy_def)
  qed
  have c4: "\<exists>r. store (snd (processMessage 5 (valueWith None (fromTo ''333'' None)) emptyWorld)) = [r]
        \<and> conversationId r = ''conv_333'' \<and> to' r = ''918329446654'' \<and> userName r = ''Unknown User''"
  proof -
    obtain r where s: "save 5 (buildMessage (valueWith None (fromTo ''333'' None))
              (fromTo ''333'' None)) = Inr r"
      by (simp add: eval_defs Let_def)
    from business_number_raw_comparison [OF first_valueWith m2 findOne_emptyWorld s]
    show ?thesis by (simp add: emptyWorld_def fromTo_def c0 md falsy_def)
  qed
  from c1 c2 c3 c4 show ?thesis by blast
qed

section \<open>Facts about a status update\<close>

lemma findOne_Some_matchedCount: "findOne mid db = Some m \<Longrightarrow> matchedCount mid db > 0"
  by (simp add: matchedCount_def)

lemma findOne_None_matchedCount: "findOne mid db = None \<Longrightarrow> matchedCount mid db = 0"
  by (simp add: matchedCount_def)

lemma processStatusUpdate_invalid:
  assumes "first (statuses v) = Some statusUpdate"
    and "st_status statusUpdate \<notin> set validStatuses"
  shows "processStatusUpdate now v w =
     (Inr (), say (Log (if falsy (statusTarget statusUpdate)
                        then ''No message ID found in status update''
                        else ''Invalid status: '' @ st_status statusUpdate)) w)"
  using assms by (simp add: processStatusUpdate_def statusTarget_def Let_def)

lemma processStatusUpdate_not_found:
  assumes "first (statuses v) = Some statusUpdate"
    and "\<not> falsy (statusTarget statusUpdate)"
    and "st_status statusUpdate \<in> set validStatuses"
    and "findOne (the (statusTarget statusUpdate)) (store w) = None"
  shows "processStatusUpdate now v w =
     (Inr (), w\<lparr> console := console w @
                   [Log (''No message found to update for '' @ the (statusTarget statusUpdate)),
                    LogIds ''Recent message IDs:'' (recentMessages (store w))] \<rparr>)"
  using assms findOne_None_matchedCount [OF assms(4)]
  by (simp add: processStatusUpdate_def statusTarget_def Let_def say_def)

lemma processStatusUpdate_applied:
  assumes "first (statuses v) = Some statusUpdate"
    and "\<not> falsy (statusTarget statusUpdate)"
    and "st_status statusUpdate \<in> set validStatuses"
    and "findOne (the (statusTarget statusUpdate)) (store w) = Some m"
  shows "processStatusUpdate now v w =
     (Inr (), w\<lparr> store := updateFirst (the (statusTarget statusUpdate))
                            (setStatus (st_status statusUpdate) now) (store w),
                 console := console w @
                   [Log (''Updated status for message '' @ the (statusTarget statusUpdate) @
                         '' to '' @ st_status statusUpdate)] \<rparr>)"
  using assms findOne_Some_matchedCount [OF assms(4)]
  by (simp add: processStatusUpdate_def statusTarget_def Let_def say_def)

lemma updateMessageStatus_invalid:
  assumes "falsy st \<or> the st \<notin> set validStatuses"
  shows "updateMessageStatus io now mid st w =
     (Response 400 (ErrorBody (if falsy mid \<or> falsy st then ''Message ID and status are required''
                               else ''Invalid status. Must be: sent, delivered, or read'')), w)"
  using assms by (auto simp: updateMessageStatus_def)

lemma updateMessageStatus_not_found:
  assumes "\<not> falsy mid" and "st \<in> set validStatuses"
    and "findOne (the mid) (store w) = None"
  shows "updateMessageStatus io now mid (Some st) w =
     (Response 404 (ErrorBody ''Message not found''), w)"
  using assms updateFirst_no_match [OF assms(3)]
  by (auto simp: updateMessageStatus_def findOneAndUpdate_def falsy_def validStatuses_def)

lemma updateMessageStatus_applied:
  assumes "\<not> falsy mid" and "st \<in> set validStatuses"
    and "findOne (the mid) (store w) = Some m"
  shows "updateMessageStatus io now mid (Some st) w =
     (Response 200 (MessageJson (setStatus st now m)),
      (if io then emit (conversationId m) (MessageStatusUpdated (the mid) st now)
                    (w\<lparr> store := updateFirst (the mid) (setStatus st now) (store w) \<rparr>)
       else w\<lparr> store := updateFirst (the mid) (setStatus st now) (store w) \<rparr>))"
  using assms
  by (auto simp: updateMessageStatus_def findOneAndUpdate_def falsy_def validStatuses_def
      setStatus_def)

lemma first_statusValue: "first (statuses (statusValue mid meta st)) = Some (statusRecord mid meta st)"
  by (simp add: statusValue_def first_def)

lemma st_status_statusRecord: "st_status (statusRecord mid meta st) = st"
  by (simp add: statusRecord_def)

lemma statusTarget_statusRecord:
  "mid \<noteq> [] \<Longrightarrow> statusTarget (statusRecord mid meta st) = Some mid"
  by (simp add: statusTarget_def statusRecord_def orElseOpt_def falsy_def)

lemmas status_eval_defs =
  webhook_def processWebhookPayload_def processStatusUpdate_def processMessage_def
  updateMessageStatus_def findOneAndUpdate_def matchedCount_def findOne_def setStatus_def
  validStatuses_def recentMessages_def say_def emit_def payloadOf_def statusValue_def
  statusRecord_def statusTarget_def
  exampleWorld_def storedExample_def readWorld_def emptyWorld_def exampleValue_def
  exampleMessage_def contentLine_def

section \<open>Status updates\<close>

text \<open>
  C6. A status request whose status is not one of \<open>sent\<close>, \<open>delivered\<close>, \<open>read\<close> is
  turned down before the store is touched. On the webhook path \<open>processStatusUpdate\<close>
  returns, the store and the emitted events are unchanged, and one console line is added
  (\<open>Invalid status: ...\<close>, or the line about the missing identifier when the record
  names none); the console differs from the console after any request with a valid
  status and an identifier, found or not. On the direct path \<open>updateMessageStatus\<close>
  answers 400 and leaves the state as it was; a request with a valid status and an
  identifier never gets that answer (it gets 404 or 200).
\<close>

theorem invalid_status_rejected:
  "(first (statuses v) = Some statusUpdate \<and> st_status statusUpdate \<notin> set validStatuses \<longrightarrow>
      fst (processStatusUpdate now v w) = Inr ()
      \<and> store (snd (processStatusUpdate now v w)) = store w
      \<and> emitted (snd (processStatusUpdate now v w)) = emitted w
      \<and> console (snd (processStatusUpdate now v w)) =
          console w @ [Log (if falsy (statusTarget statusUpdate)
                            then ''No message ID found in status update''
                            else ''Invalid status: '' @ st_status statusUpdate)]
      \<and> (\<forall>now' v' su'. first (statuses v') = Some su' \<and> \<not> falsy (statusTarget su') \<and>
             st_status su' \<in> set validStatuses \<longrightarrow>
             console (snd (processStatusUpdate now' v' w)) \<noteq>
             console (snd (processStatusUpdate now v w))))
   \<and> (falsy st \<or> the st \<notin> set validStatuses \<longrightarrow>
      updateMessageStatus io now mid st w =
        (Response 400 (ErrorBody (if falsy mid \<or> falsy st
                                  then ''Message ID and status are required''
                                  else ''Invalid status. Must be: sent, delivered, or read'')), w)
      \<and> (\<forall>io' now' mid' st' w'. \<not> falsy mid' \<and> st' \<in> set validStatuses \<longrightarrow>
             fst (updateMessageStatus io' now' mid' (Some st') w') \<noteq>
             fst (updateMessageStatus io now mid st w)))"
proof (intro conjI impI)
  assume a: "first (statuses v) = Some statusUpdate \<and> st_status statusUpdate \<notin> set validStatuses"
  note inv = processStatusUpdate_invalid [OF conjunct1 [OF a] conjunct2 [OF a], of now w]
  show "fst (processStatusUpdate now v w) = Inr ()" by (simp add: inv)
  show "store (snd (processStatusUpdate now v w)) = store w" by (simp add: inv say_def)
  show "emitted (snd (processStatusUpdate now v w)) = emitted w" by (simp add: inv say_def)
  show c: "console (snd (processStatusUpdate now v w)) =
          console w @ [Log (if falsy (statusTarget statusUpdate)
                            then ''No message ID found in status update''
                            else ''Invalid status: '' @ st_status statusUpdate)]"
    by (simp add: inv say_def)
  show "\<forall>now' v' su'. first (statuses v') = Some su' \<and> \<not> falsy (statusTarget su') \<and>
             st_status su' \<in> set validStatuses \<longrightarrow>
             console (snd (processStatusUpdate now' v' w)) \<noteq>
             console (snd (processStatusUpdate now v w))"
  proof (intro allI impI)
    fix now' :: int and v' :: WhatsAppValue and su' :: WhatsAppStatus
    assume b: "first (statuses v') = Some su' \<and> \<not> falsy (statusTarget su') \<and>
             st_status su' \<in> set validStatuses"
    show "console (snd (processStatusUpdate now' v' w)) \<noteq>
             console (snd (processStatusUpdate now v w))"
    proof (cases "findOne (the (statusTarget su')) (store w)")
      case None
      from b have b1: "first (statuses v') = Some su'" and b2: "\<not> falsy (statusTarget su')"
        and b3: "st_status su' \<in> set validStatuses" by simp_all
      show ?thesis
        unfolding c by (simp add: processStatusUpdate_not_found [OF b1 b2 b3 None])
    next
      case (Some m)
      from b have b1: "first (statuses v') = Some su'" and b2: "\<not> falsy (statusTarget su')"
        and b3: "st_status su' \<in> set validStatuses" by simp_all
      show ?thesis
        unfolding c by (simp add: processStatusUpdate_applied [OF b1 b2 b3 Some])
    qed
  qed
next
  assume a: "falsy st \<or> the st \<notin> set validStatuses"
  show r: "updateMessageStatus io now mid st w =
        (Response 400 (ErrorBody (if falsy mid \<or> falsy st
                                  then ''Message ID and status are required''
                                  else ''Invalid status. Must be: sent, delivered, or read'')), w)"
    by (rule updateMessageStatus_invalid [OF a])
  show "\<forall>io' now' mid' st' w'. \<not> falsy mid' \<and> st' \<in> set validStatuses \<longrightarrow>
             fst (updateMessageStatus io' now' mid' (Some st') w') \<noteq>
             fst (updateMessageStatus io now mid st w)"
  proof (intro allI impI)
    fix io' :: bool and now' :: int and mid' :: "string option" and st' :: string and w' :: world
    assume b: "\<not> falsy mid' \<and> st' \<in> set validStatuses"
    show "fst (updateMessageStatus io' now' mid' (Some st') w') \<noteq>
             fst (updateMessageStatus io now mid st w)"
    proof (cases "findOne (the mid') (store w')")
      case None
      show ?thesis
        unfolding r
        by (simp add: updateMessageStatus_not_found [OF conjunct1 [OF b] conjunct2 [OF b] None])
    next
      case (Some m)
      show ?thesis
        unfolding r
        by (simp add: updateMessageStatus_applied [OF conjunct1 [OF b] conjunct2 [OF b] Some])
    qed
  qed
qed

theorem invalid_status_rejected_witness:
  "first (statuses (statusValue ''m1'' None ''failed'')) = Some (statusRecord ''m1'' None ''failed'')
   \<and> st_status (statusRecord ''m1'' None ''failed'') \<notin> set validStatuses
   \<and> fst (processStatusUpdate 9 (statusValue ''m1'' None ''failed'') exampleWorld) = Inr ()
   \<and> store (snd (processStatusUpdate 9 (statusValue ''m1'' None ''failed'') exampleWorld)) = [storedExample]
   \<and> emitted (snd (processStatusUpdate 9 (statusValue ''m1'' None ''failed'') exampleWorld)) = []
   \<and> console (snd (processStatusUpdate 9 (statusValue ''m1'' None ''failed'') exampleWorld)) =
        [Log ''Invalid status: failed'']
   \<and> console (snd (processStatusUpdate 9 (statusValue ''m1'' None ''read'') exampleWorld)) \<noteq>
        [Log ''Invalid status: failed'']
   \<and> console (snd (processStatusUpdate 9 (statusValue ''zz'' None ''read'') exampleWorld)) \<noteq>
        [Log ''Invalid status: failed'']
   \<and> updateMessageStatus True 9 (Some ''m1'') (Some ''failed'') exampleWorld =
        (Response 400 (ErrorBody ''Invalid status. Must be: sent, delivered, or read''), exampleWorld)
   \<and> fst (updateMessageStatus True 9 (Some ''m1'') (Some ''read'') exampleWorld) \<noteq>
        Response 400 (ErrorBody ''Invalid status. Must be: sent, delivered, or read'')
   \<and> fst (updateMessageStatus True 9 (Some ''zz'') (Some ''read'') exampleWorld) \<noteq>
        Response 400 (ErrorBody ''Invalid status. Must be: sent, delivered, or read'')"
proof -
  have h1: "first (statuses (statusValue ''m1'' None ''failed'')) = Some (statusRecord ''m1'' None ''failed'')"
    by (rule first_statusValue)
  have h2: "st_status (statusRecord ''m1'' None ''failed'') \<notin> set validStatuses"
    by (simp add: statusRecord_def validStatuses_def)
  have h3: "falsy (Some ''failed'') \<or> the (Some ''failed'') \<notin> set validStatuses"
    by (simp add: validStatuses_def)
  have t: "statusTarget (statusRecord ''m1'' None ''failed'') = Some ''m1''"
    by (simp add: statusTarget_statusRecord)
  note inst = invalid_status_rejected [where v = "statusValue ''m1'' None ''failed''"
      and statusUpdate = "statusRecord ''m1'' None ''failed''" and now = 9 and w = exampleWorld
      and st = "Some ''failed''" and io = True and mid = "Some ''m1''"]
  from inst h1 h2 have a0:
    "fst (processStatusUpdate 9 (statusValue ''m1'' None ''failed'') exampleWorld) = Inr ()
     \<and> store (snd (processStatusUpdate 9 (statusValue ''m1'' None ''failed'') exampleWorld)) = store exampleWorld
     \<and> emitted (snd (processStatusUpdate 9 (statusValue ''m1'' None ''failed'') exampleWorld)) = emitted exampleWorld
     \<and> console (snd (processStatusUpdate 9 (statusValue ''m1'' None ''failed'') exampleWorld)) =
          console exampleWorld @ [Log (if falsy (statusTarget (statusRecord ''m1'' None ''failed''))
                            then ''No message ID found in status update''
                            else ''Invalid status: '' @ st_status (statusRecord ''m1'' None ''failed''))]"
    by blast
  then have a:
    "fst (processStatusUpdate 9 (statusValue ''m1'' None ''failed'') exampleWorld) = Inr ()
     \<and> store (snd (processStatusUpdate 9 (statusValue ''m1'' None ''failed'') exampleWorld)) = [storedExample]
     \<and> emitted (snd (processStatusUpdate 9 (statusValue ''m1'' None ''failed'') exampleWorld)) = []
     \<and> console (snd (processStatusUpdate 9 (statusValue ''m1'' None ''failed'') exampleWorld)) =
        [Log ''Invalid status: failed'']"
    by (simp add: t falsy_def exampleWorld_def st_status_statusRecord)
  from inst h1 h2 have b:
    "\<forall>now' v' su'. first (statuses v') = Some su' \<and> \<not> falsy (statusTarget su') \<and>
             st_status su' \<in> set validStatuses \<longrightarrow>
             console (snd (processStatusUpdate now' v' exampleWorld)) \<noteq>
             console (snd (processStatusUpdate 9 (statusValue ''m1'' None ''failed'') exampleWorld))"
    by blast
  have b1: "console (snd (processStatusUpdate 9 (statusValue ''m1'' None ''read'') exampleWorld)) \<noteq>
        [Log ''Invalid status: failed'']"
    using b [rule_format, of "statusValue ''m1'' None ''read''" "statusRecord ''m1'' None ''read''" 9] a
    by (simp add: first_statusValue statusTarget_statusRecord falsy_def st_status_statusRecord validStatuses_def)
  have b2: "console (snd (processStatusUpdate 9 (statusValue ''zz'' None ''read'') exampleWorld)) \<noteq>
        [Log ''Invalid status: failed'']"
    using b [rule_format, of "statusValue ''zz'' None ''read''" "statusRecord ''zz'' None ''read''" 9] a
    by (simp add: first_statusValue statusTarget_statusRecord falsy_def st_status_statusRecord validStatuses_def)
  from inst h3 have c0:
    "updateMessageStatus True 9 (Some ''m1'') (Some ''failed'') exampleWorld =
        (Response 400 (ErrorBody (if falsy (Some ''m1'') \<or> falsy (Some ''failed'')
                                  then ''Message ID and status are required''
                                  else ''Invalid status. Must be: sent, delivered, or read'')), exampleWorld)"
    by blast
  then have c:
    "updateMessageStatus True 9 (Some ''m1'') (Some ''failed'') exampleWorld =
        (Response 400 (ErrorBody ''Invalid status. Must be: sent, delivered, or read''), exampleWorld)"
    by (simp add: falsy_def)
  from inst h3 have d:
    "\<forall>io' now' mid' st' w'. \<not> falsy mid' \<and> st' \<in> set validStatuses \<longrightarrow>
             fst (updateMessageStatus io' now' mid' (Some st') w') \<noteq>
             fst (updateMessageStatus True 9 (Some ''m1'') (Some ''failed'') exampleWorld)"
    by blast
  have d1: "fst (updateMessageStatus True 9 (Some ''m1'') (Some ''read'') exampleWorld) \<noteq>
        Response 400 (ErrorBody ''Invalid status. Must be: sent, delivered, or read'')"
    using d [rule_format, of "Some ''m1''" "''read''" True 9 exampleWorld] c
    by (simp add: falsy_def validStatuses_def)
  have d2: "fst (updateMessageStatus True 9 (Some ''zz'') (Some ''read'') exampleWorld) \<noteq>
        Response 400 (ErrorBody ''Invalid status. Must be: sent, delivered, or read'')"
    using d [rule_format, of "Some ''zz''" "''read''" True 9 exampleWorld] c
    by (simp add: falsy_def validStatuses_def)
  from h1 h2 a b1 b2 c d1 d2 show ?thesis by blast
qed

text \<open>
  C7. A status request whose identifier matches no stored message. On the webhook path
  \<open>processStatusUpdate\<close> returns without an error, the store and the emitted events
  are unchanged, and for a valid status the console gets the line
  \<open>No message found to update for ...\<close> and the recent identifiers. On the direct path
  \<open>updateMessageStatus\<close> leaves the whole state unchanged, so nothing is stored or
  emitted, and for a valid status it answers 404 \<open>Message not found\<close>.
\<close>

theorem unknown_identifier_not_found:
  "(first (statuses v) = Some statusUpdate \<and> \<not> falsy (statusTarget statusUpdate) \<and>
    findOne (the (statusTarget statusUpdate)) (store w) = None \<longrightarrow>
      fst (processStatusUpdate now v w) = Inr ()
      \<and> store (snd (processStatusUpdate now v w)) = store w
      \<and> emitted (snd (processStatusUpdate now v w)) = emitted w
      \<and> (st_status statusUpdate \<in> set validStatuses \<longrightarrow>
           console (snd (processStatusUpdate now v w)) =
             console w @
               [Log (''No message found to update for '' @ the (statusTarget statusUpdate)),
                LogIds ''Recent message IDs:'' (recentMessages (store w))]))
   \<and> (\<not> falsy mid \<and> findOne (the mid) (store w) = None \<longrightarrow>
      snd (updateMessageStatus io now mid st w) = w
      \<and> (\<forall>s. st = Some s \<and> s \<in> set validStatuses \<longrightarrow>
            fst (updateMessageStatus io now mid st w) =
              Response 404 (ErrorBody ''Message not found'')))"
proof (intro conjI impI allI)
  assume a: "first (statuses v) = Some statusUpdate \<and> \<not> falsy (statusTarget statusUpdate) \<and>
    findOne (the (statusTarget statusUpdate)) (store w) = None"
  then have a1: "first (statuses v) = Some statusUpdate"
    and a2: "\<not> falsy (statusTarget statusUpdate)"
    and a3: "findOne (the (statusTarget statusUpdate)) (store w) = None" by simp_all
  have r: "processStatusUpdate now v w =
     (if st_status statusUpdate \<in> set validStatuses then
        (Inr (), w\<lparr> console := console w @
                   [Log (''No message found to update for '' @ the (statusTarget statusUpdate)),
                    LogIds ''Recent message IDs:'' (recentMessages (store w))] \<rparr>)
      else (Inr (), say (Log (''Invalid status: '' @ st_status statusUpdate)) w))"
    using processStatusUpdate_not_found [OF a1 a2 _ a3, of now]
      processStatusUpdate_invalid [OF a1, of now w] a2
    by simp
  show "fst (processStatusUpdate now v w) = Inr ()" by (simp add: r)
  show "store (snd (processStatusUpdate now v w)) = store w" by (simp add: r say_def)
  show "emitted (snd (processStatusUpdate now v w)) = emitted w" by (simp add: r say_def)
  show "console (snd (processStatusUpdate now v w)) =
             console w @
               [Log (''No message found to update for '' @ the (statusTarget statusUpdate)),
                LogIds ''Recent message IDs:'' (recentMessages (store w))]"
    if "st_status statusUpdate \<in> set validStatuses"
    using that by (simp add: r)
next
  assume a: "\<not> falsy mid \<and> findOne (the mid) (store w) = None"
  then have a1: "\<not> falsy mid" and a2: "findOne (the mid) (store w) = None" by simp_all
  show "snd (updateMessageStatus io now mid st w) = w"
  proof (cases "falsy st \<or> the st \<notin> set validStatuses")
    case True
    then show ?thesis by (simp add: updateMessageStatus_invalid)
  next
    case False
    then obtain s where "st = Some s" "s \<in> set validStatuses"
      by (cases st) (auto simp: falsy_def)
    then show ?thesis by (simp add: updateMessageStatus_not_found [OF a1 _ a2])
  qed
  fix s
  assume "st = Some s \<and> s \<in> set validStatuses"
  then show "fst (updateMessageStatus io now mid st w) =
              Response 404 (ErrorBody ''Message not found'')"
    by (simp add: updateMessageStatus_not_found [OF a1 _ a2])
qed

theorem unknown_identifier_not_found_witness:
  "first (statuses (statusValue ''zz'' None ''delivered'')) = Some (statusRecord ''zz'' None ''delivered'')
   \<and> \<not> falsy (statusTarget (statusRecord ''zz'' None ''delivered''))
   \<and> findOne (the (statusTarget (statusRecord ''zz'' None ''delivered''))) (store exampleWorld) = None
   \<and> st_status (statusRecord ''zz'' None ''delivered'') \<in> set validStatuses
   \<and> fst (processStatusUpdate 9 (statusValue ''zz'' None ''delivered'') exampleWorld) = Inr ()
   \<and> store (snd (processStatusUpdate 9 (statusValue ''zz'' None ''delivered'') exampleWorld)) = [storedExample]
   \<and> emitted (snd (processStatusUpdate 9 (statusValue ''zz'' None ''delivered'') exampleWorld)) = []
   \<and> console (snd (processStatusUpdate 9 (statusValue ''zz'' None ''delivered'') exampleWorld)) =
       [Log ''No message found to update for zz'', LogIds ''Recent message IDs:'' [''m1'']]
   \<and> \<not> falsy (Some ''zz'') \<and> findOne (the (Some ''zz'')) (store exampleWorld) = None
   \<and> updateMessageStatus True 9 (Some ''zz'') (Some ''delivered'') exampleWorld =
       (Response 404 (ErrorBody ''Message not found''), exampleWorld)"
proof -
  have t: "statusTarget (statusRecord ''zz'' None ''delivered'') = Some ''zz''"
    by (simp add: statusTarget_statusRecord)
  have h1: "first (statuses (statusValue ''zz'' None ''delivered'')) = Some (statusRecord ''zz'' None ''delivered'')"
    by (rule first_statusValue)
  have h2: "\<not> falsy (statusTarget (statusRecord ''zz'' None ''delivered''))"
    by (simp add: t falsy_def)
  have h3: "findOne (the (statusTarget (statusRecord ''zz'' None ''delivered''))) (store exampleWorld) = None"
    by (simp add: t findOne_def exampleWorld_def storedExample_def)
  have h4: "st_status (statusRecord ''zz'' None ''delivered'') \<in> set validStatuses"
    by (simp add: statusRecord_def validStatuses_def)
  have h5: "\<not> falsy (Some ''zz'')" by (simp add: falsy_def)
  have h6: "findOne (the (Some ''zz'')) (store exampleWorld) = None"
    by (simp add: findOne_def exampleWorld_def storedExample_def)
  have r: "recentMessages (store exampleWorld) = [''m1'']"
    by (simp add: recentMessages_def exampleWorld_def storedExample_def)
  note inst = unknown_identifier_not_found [where v = "statusValue ''zz'' None ''delivered''"
      and statusUpdate = "statusRecord ''zz'' None ''delivered''" and now = 9 and w = exampleWorld
      and st = "Some ''delivered''" and io = True and mid = "Some ''zz''"]
  from inst h1 h2 h3 h4 have a0:
    "fst (processStatusUpdate 9 (statusValue ''zz'' None ''delivered'') exampleWorld) = Inr ()
     \<and> store (snd (processStatusUpdate 9 (statusValue ''zz'' None ''delivered'') exampleWorld)) = store exampleWorld
     \<and> emitted (snd (processStatusUpdate 9 (statusValue ''zz'' None ''delivered'') exampleWorld)) = emitted exampleWorld
     \<and> console (snd (processStatusUpdate 9 (statusValue ''zz'' None ''delivered'') exampleWorld)) =
         console exampleWorld @
           [Log (''No message found to update for '' @ the (statusTarget (statusRecord ''zz'' None ''delivered''))),
            LogIds ''Recent message IDs:'' (recentMessages (store exampleWorld))]"
    by blast
  then have a:
    "fst (processStatusUpdate 9 (statusValue ''zz'' None ''delivered'') exampleWorld) = Inr ()
     \<and> store (snd (processStatusUpdate 9 (statusValue ''zz'' None ''delivered'') exampleWorld)) = [storedExample]
     \<and> emitted (snd (processStatusUpdate 9 (statusValue ''zz'' None ''delivered'') exampleWorld)) = []
     \<and> console (snd (processStatusUpdate 9 (statusValue ''zz'' None ''delivered'') exampleWorld)) =
       [Log ''No message found to update for zz'', LogIds ''Recent message IDs:'' [''m1'']]"
    by (simp add: t r) (simp add: exampleWorld_def)
  from inst h5 h6 h4 have b0:
    "snd (updateMessageStatus True 9 (Some ''zz'') (Some ''delivered'') exampleWorld) = exampleWorld
     \<and> fst (updateMessageStatus True 9 (Some ''zz'') (Some ''delivered'') exampleWorld) =
         Response 404 (ErrorBody ''Message not found'')"
    by (simp add: st_status_statusRecord)
  then have b:
    "updateMessageStatus True 9 (Some ''zz'') (Some ''delivered'') exampleWorld =
       (Response 404 (ErrorBody ''Message not found''), exampleWorld)"
    by (simp add: prod_eq_iff)
  from h1 h2 h3 h4 h5 h6 a b show ?thesis by blast
qed

text \<open>
  C1, as the code has it. A status request with a valid status and an identifier that
  is in the store sets the status of the first stored record with that identifier to
  the requested status and its \<open>updatedAt\<close> to the current time, whatever the status
  was; every other record and every other field stays as it was. This holds on the
  webhook path and on the direct path.
\<close>

theorem status_set_unconditionally:
  "(first (statuses v) = Some statusUpdate \<and> \<not> falsy (statusTarget statusUpdate) \<and>
    st_status statusUpdate \<in> set validStatuses \<and>
    findOne (the (statusTarget statusUpdate)) (store w) = Some m \<longrightarrow>
      (\<exists>pre post. store w = pre @ m # post
          \<and> findOne (the (statusTarget statusUpdate)) pre = None
          \<and> store (snd (processStatusUpdate now v w)) =
              pre @ m\<lparr> status := st_status statusUpdate, updatedAt := now \<rparr> # post))
   \<and> (\<not> falsy mid \<and> st \<in> set validStatuses \<and> findOne (the mid) (store w) = Some m \<longrightarrow>
      (\<exists>pre post. store w = pre @ m # post
          \<and> findOne (the mid) pre = None
          \<and> store (snd (updateMessageStatus io now mid (Some st) w)) =
              pre @ m\<lparr> status := st, updatedAt := now \<rparr> # post))"
proof (intro conjI impI)
  assume a: "first (statuses v) = Some statusUpdate \<and> \<not> falsy (statusTarget statusUpdate) \<and>
    st_status statusUpdate \<in> set validStatuses \<and>
    findOne (the (statusTarget statusUpdate)) (store w) = Some m"
  then have a1: "first (statuses v) = Some statusUpdate"
    and a2: "\<not> falsy (statusTarget statusUpdate)"
    and a3: "st_status statusUpdate \<in> set validStatuses"
    and a4: "findOne (the (statusTarget statusUpdate)) (store w) = Some m" by simp_all
  from updateFirst_split [OF a4, of "setStatus (st_status statusUpdate) now"]
  show "\<exists>pre post. store w = pre @ m # post
          \<and> findOne (the (statusTarget statusUpdate)) pre = None
          \<and> store (snd (processStatusUpdate now v w)) =
              pre @ m\<lparr> status := st_status statusUpdate, updatedAt := now \<rparr> # post"
    by (simp add: processStatusUpdate_applied [OF a1 a2 a3 a4] setStatus_def)
next
  assume a: "\<not> falsy mid \<and> st \<in> set validStatuses \<and> findOne (the mid) (store w) = Some m"
  then have a1: "\<not> falsy mid" and a2: "st \<in> set validStatuses"
    and a3: "findOne (the mid) (store w) = Some m" by simp_all
  from updateFirst_split [OF a3, of "setStatus st now"]
  show "\<exists>pre post. store w = pre @ m # post
          \<and> findOne (the mid) pre = None
          \<and> store (snd (updateMessageStatus io now mid (Some st) w)) =
              pre @ m\<lparr> status := st, updatedAt := now \<rparr> # post"
    by (simp add: updateMessageStatus_applied [OF a1 a2 a3] setStatus_def emit_def)
qed

theorem status_set_unconditionally_witness:
  "first (statuses (statusValue ''m1'' None ''sent'')) = Some (statusRecord ''m1'' None ''sent'')
   \<and> \<not> falsy (statusTarget (statusRecord ''m1'' None ''sent''))
   \<and> st_status (statusRecord ''m1'' None ''sent'') \<in> set validStatuses
   \<and> findOne (the (statusTarget (statusRecord ''m1'' None ''sent''))) (store readWorld) =
        Some (storedExample\<lparr> status := ''read'', updatedAt := 6 \<rparr>)
   \<and> store (snd (processStatusUpdate 7 (statusValue ''m1'' None ''sent'') readWorld)) =
        [storedExample\<lparr> status := ''sent'', updatedAt := 7 \<rparr>]
   \<and> \<not> falsy (Some ''m1'') \<and> ''sent'' \<in> set validStatuses
   \<and> findOne (the (Some ''m1'')) (store readWorld) =
        Some (storedExample\<lparr> status := ''read'', updatedAt := 6 \<rparr>)
   \<and> store (snd (updateMessageStatus True 7 (Some ''m1'') (Some ''sent'') readWorld)) =
        [storedExample\<lparr> status := ''sent'', updatedAt := 7 \<rparr>]"
proof -
  have t: "statusTarget (statusRecord ''m1'' None ''sent'') = Some ''m1''"
    by (simp add: statusTarget_statusRecord)
  have h1: "first (statuses (statusValue ''m1'' None ''sent'')) = Some (statusRecord ''m1'' None ''sent'')"
    by (rule first_statusValue)
  have h2: "\<not> falsy (statusTarget (statusRecord ''m1'' None ''sent''))"
    by (simp add: t falsy_def)
  have h3: "st_status (statusRecord ''m1'' None ''sent'') \<in> set validStatuses"
    by (simp add: statusRecord_def validStatuses_def)
  have h4: "findOne (the (statusTarget (statusRecord ''m1'' None ''sent''))) (store readWorld) =
        Some (storedExample\<lparr> status := ''read'', updatedAt := 6 \<rparr>)"
    by (simp add: t findOne_def readWorld_def storedExample_def)
  have h5: "\<not> falsy (Some ''m1'')" by (simp add: falsy_def)
  have h6: "''sent'' \<in> set validStatuses" by (simp add: validStatuses_def)
  have h7: "findOne (the (Some ''m1'')) (store readWorld) =
        Some (storedExample\<lparr> status := ''read'', updatedAt := 6 \<rparr>)"
    by (simp add: findOne_def readWorld_def storedExample_def)
  have s: "store readWorld = [storedExample\<lparr> status := ''read'', updatedAt := 6 \<rparr>]"
    by (simp add: readWorld_def)
  note inst = status_set_unconditionally [where v = "statusValue ''m1'' None ''sent''"
      and statusUpdate = "statusRecord ''m1'' None ''sent''" and now = 7 and w = readWorld
      and st = "''sent''" and io = True and mid = "Some ''m1''"
      and m = "storedExample\<lparr> status := ''read'', updatedAt := 6 \<rparr>"]
  from inst h1 h2 h3 h4 have "\<exists>pre post.
      store readWorld = pre @ storedExample\<lparr> status := ''read'', updatedAt := 6 \<rparr> # post
      \<and> store (snd (processStatusUpdate 7 (statusValue ''m1'' None ''sent'') readWorld)) =
          pre @ storedExample\<lparr> status := ''read'', updatedAt := 6 \<rparr>
                  \<lparr> status := st_status (statusRecord ''m1'' None ''sent''), updatedAt := 7 \<rparr> # post"
    by blast
  then have a:
    "store (snd (processStatusUpdate 7 (statusValue ''m1'' None ''sent'') readWorld)) =
        [storedExample\<lparr> status := ''sent'', updatedAt := 7 \<rparr>]"
    by (auto simp: s Cons_eq_append_conv st_status_statusRecord)
  from inst h5 h6 h7 have "\<exists>pre post.
      store readWorld = pre @ storedExample\<lparr> status := ''read'', updatedAt := 6 \<rparr> # post
      \<and> store (snd (updateMessageStatus True 7 (Some ''m1'') (Some ''sent'') readWorld)) =
          pre @ storedExample\<lparr> status := ''read'', updatedAt := 6 \<rparr>
                  \<lparr> status := ''sent'', updatedAt := 7 \<rparr> # post"
    by blast
  then have b:
    "store (snd (updateMessageStatus True 7 (Some ''m1'') (Some ''sent'') readWorld)) =
        [storedExample\<lparr> status := ''sent'', updatedAt := 7 \<rparr>]"
    by (auto simp: s Cons_eq_append_conv)
  from h1 h2 h3 h4 h5 h6 h7 a b show ?thesis by blast
qed

text \<open>
  C1 as stated fails: the message \<open>m1\<close> is stored as \<open>sent\<close>, a status envelope makes
  it \<open>read\<close>, and a later request for \<open>sent\<close> moves it back to \<open>sent\<close>, through the
  webhook and through the direct call.
\<close>

theorem status_moves_backward:
  "map status (store (snd (webhook 5 (payloadOf exampleValue) emptyWorld))) = [''sent'']
   \<and> store (snd (webhook 5 (payloadOf exampleValue) emptyWorld)) = store exampleWorld
   \<and> store (snd (webhook 6 (payloadOf (statusValue ''m1'' None ''read'')) exampleWorld)) = store readWorld
   \<and> map status (store readWorld) = [''read'']
   \<and> map status (store (snd (webhook 7 (payloadOf (statusValue ''m1'' None ''sent'')) readWorld))) = [''sent'']
   \<and> map status (store (snd (updateMessageStatus True 7 (Some ''m1'') (Some ''sent'') readWorld))) = [''sent'']"
  by (simp add: status_eval_defs eval_defs Let_def)

section \<open>Live notifications\<close>

text \<open>Nothing in \<open>processPayload.ts\<close> reaches the socket server: the webhook emits nothing.\<close>

lemma processMessage_emitted: "emitted (snd (processMessage now v w)) = emitted w"
  by (simp add: processMessage_def say_def split: option.splits sum.splits)

lemma processStatusUpdate_emitted: "emitted (snd (processStatusUpdate now v w)) = emitted w"
  by (simp add: processStatusUpdate_def say_def Let_def split: option.splits)

lemma processWebhookPayload_emitted: "emitted (snd (processWebhookPayload now payload w)) = emitted w"
proof -
  have "emitted (snd (case r of (Inl e, w') \<Rightarrow> (Inl e, say (LogError s e) w')
                      | (Inr u, w') \<Rightarrow> (Inr u, w'))) = emitted (snd r)"
    for r :: "(error + unit) \<times> world" and s
    by (cases r) (simp add: say_def split: sum.splits)
  then show ?thesis
    by (simp add: processWebhookPayload_def processMessage_emitted processStatusUpdate_emitted
        say_def split: option.splits)
qed

lemma webhook_emits_nothing: "emitted (snd (webhook now payload w)) = emitted w"
proof -
  have "emitted (snd (processWebhookPayload now payload (say (Log ''Received webhook payload'') w)))
      = emitted w"
    by (simp add: processWebhookPayload_emitted say_def)
  then show ?thesis
    by (cases "processWebhookPayload now payload (say (Log ''Received webhook payload'') w)")
      (simp add: webhook_def say_def split: sum.splits)
qed

text \<open>
  C3. The status envelope of the scenario, \<open>delivered\<close> for the stored message \<open>m1\<close>:
  the webhook sets the status and answers 200, and no event is emitted. The same request
  through \<open>updateMessageStatus\<close> emits \<open>message-status-updated\<close> to the room
  \<open>conv_5551234\<close> with the identifier, the status and \<open>updatedAt\<close>. The README of the
  backend lists the status event as emitted by \<open>processPayload.ts\<close>.
\<close>

theorem webhook_status_update_publishes_nothing:
  "webhook 9 (payloadOf (statusValue ''m1'' None ''delivered'')) exampleWorld =
     (Response 200 (Success ''Payload processed successfully''),
      \<lparr> store = [storedExample\<lparr> status := ''delivered'', updatedAt := 9 \<rparr>],
        console = [Log ''Received webhook payload'',
                   Log ''Updated status for message m1 to delivered''],
        emitted = [] \<rparr>)
   \<and> updateMessageStatus True 9 (Some ''m1'') (Some ''delivered'') exampleWorld =
     (Response 200 (MessageJson (storedExample\<lparr> status := ''delivered'', updatedAt := 9 \<rparr>)),
      \<lparr> store = [storedExample\<lparr> status := ''delivered'', updatedAt := 9 \<rparr>],
        console = [],
        emitted = [(''conv_5551234'', MessageStatusUpdated ''m1'' ''delivered'' 9)] \<rparr>)"
  by (simp add: status_eval_defs eval_defs Let_def)

text \<open>
  C8. The new-message envelope of the scenario on an empty store: the webhook inserts
  the record and answers 200, and no event is emitted. \<open>sendMessage\<close> emits
  \<open>new-message\<close> with the saved record to the room of its conversation. The README of
  the backend lists the new-message event as emitted by \<open>processPayload.ts\<close> too.
\<close>

theorem webhook_new_message_publishes_nothing:
  "webhook 5 (payloadOf exampleValue) emptyWorld =
     (Response 200 (Success ''Payload processed successfully''),
      \<lparr> store = [storedExample],
        console = [Log ''Received webhook payload'',
                   Log ''Inserted message: m1 from Unknown User'',
                   Log ''   Content: hi''],
        emitted = [] \<rparr>)
   \<and> sendMessage True 5 ''abcdefghi'' sendRequest emptyWorld =
     (Response 201 (MessageJson sentExample),
      \<lparr> store = [sentExample],
        console = [Log ''Emitted new message to conversation: conv_5551234''],
        emitted = [(''conv_5551234'', NewMessage sentExample)] \<rparr>)"
  by (simp add: status_eval_defs eval_defs Let_def sendMessage_def sendRequest_def
      sentExample_def showInt_def trim_def)

section \<open>The conversation list\<close>

text \<open>
  The variable \<open>customer\<close> of \<open>$project\<close> is never \<open>null\<close>: the filtered array holds no
  \<open>null\<close>, and past its end \<open>$arrayElemAt\<close> gives no value. So the branch that builds
  \<open>+\<close> and the number is never taken, and a conversation with no sender other than
  \<open>Business\<close> gets no \<open>userName\<close> at all.
\<close>

lemma customer_never_null: "arrayElemAt (filter (\<lambda>msg. msg \<noteq> Null) xs) 0 \<noteq> Null"
proof (cases "filter (\<lambda>msg. msg \<noteq> Null) xs")
  case Nil
  then show ?thesis by (simp add: arrayElemAt_def)
next
  case (Cons a list)
  then have "a \<in> set (filter (\<lambda>msg. msg \<noteq> Null) xs)" by simp
  then have "a \<noteq> Null" by simp
  with Cons show ?thesis by (simp add: arrayElemAt_def)
qed

lemma projectUserName_no_fallback:
  "projectUserName g =
     Inr (case filter (\<lambda>msg. msg \<noteq> Null) (customerMessages g) of
            Val c # _ \<Rightarrow> Val (cu_userName c)
          | _ \<Rightarrow> Missing)"
proof -
  have "arrayElemAt (filter (\<lambda>msg. msg \<noteq> Null) (customerMessages g)) 0 \<noteq> Null"
    by (rule customer_never_null)
  then show ?thesis
    by (auto simp: projectUserName_def Let_def arrayElemAt_def split: list.splits bson.splits)
qed

lemma business_only_group_has_no_name:
  assumes "list_all (\<lambda>m. userName m = ''Business'') ms"
  shows "projectUserName \<lparr> group_id = cid, lastMessage = lm, group_messageCount = n,
           group_participants = ps, customerMessages = map customerEntry ms \<rparr> = Inr Missing"
proof -
  from assms have "filter (\<lambda>msg. msg \<noteq> Null) (map customerEntry ms) = []"
    by (induction ms) (simp_all add: customerEntry_def)
  then show ?thesis by (simp add: projectUserName_no_fallback)
qed

text \<open>
  What holds of the list for every store: one summary for each \<open>conversationId\<close>, in
  descending order of \<open>lastTimestamp\<close>; the count is the number of messages of the
  conversation; the last body and timestamp are those of a message of the conversation
  whose timestamp no other message of it exceeds; the name is that of the first sender
  other than \<open>Business\<close> in timestamp order, and missing when there is none
  (\<open>summaryOf\<close>).
\<close>

lemma collect_all_Inr: "collect (map (\<lambda>x. Inr (f x)) xs) = Inr (map f xs)"
  by (induction xs) simp_all

lemma customers_of_messages:
  "filter (\<lambda>msg. msg \<noteq> Null) (map customerEntry ms) =
   map (\<lambda>m. Val \<lparr> cu_userName = userName m, cu_from = from' m \<rparr>)
     (filter (\<lambda>m. userName m \<noteq> ''Business'') ms)"
  by (induction ms) (simp_all add: customerEntry_def)

lemma projectStage_groupStage:
  "map projectStage (groupStage docs) =
   map (\<lambda>cid. Inr (summaryOf docs cid)) (remdups (map conversationId docs))"
  by (simp add: groupStage_def projectStage_def projectUserName_no_fallback Let_def
      customers_of_messages summaryOf_def split: list.splits)

lemma aggregateConversations_eq:
  "aggregateConversations db =
     Inr (sort_key (\<lambda>c. - lastTimestamp c)
            (map (summaryOf (sort_key timestamp db))
               (remdups (map conversationId (sort_key timestamp db)))))"
  by (simp add: aggregateConversations_def projectStage_groupStage collect_all_Inr)

lemma sorted_uminus_rev: "sorted (map (\<lambda>x. - f x) xs) \<Longrightarrow> sorted (rev (map f xs))"
  for f :: "'a \<Rightarrow> int"
  by (induction xs) (auto simp: sorted_append)

lemma sorted_last_greatest:
  "sorted (map f xs) \<Longrightarrow> x \<in> set xs \<Longrightarrow> f x \<le> f (last xs)"
  for f :: "'a \<Rightarrow> int"
  by (induction xs) (auto split: if_splits)

lemma summaryOf_sorted:
  assumes "cid \<in> conversationId ` set db"
  shows "cs_conversationId (summaryOf (sort_key timestamp db) cid) = cid"
    and "messageCount (summaryOf (sort_key timestamp db) cid) =
           length (filter (\<lambda>m. conversationId m = cid) db)"
    and "\<exists>m \<in> set db. conversationId m = cid
           \<and> lastTimestamp (summaryOf (sort_key timestamp db) cid) = timestamp m
           \<and> lastMessageBody (summaryOf (sort_key timestamp db) cid) = body m
           \<and> (\<forall>m' \<in> set db. conversationId m' = cid \<longrightarrow> timestamp m' \<le> timestamp m)"
proof -
  let ?docs = "sort_key timestamp db"
  let ?ms = "filter (\<lambda>m. conversationId m = cid) ?docs"
  show "cs_conversationId (summaryOf ?docs cid) = cid"
    by (simp add: summaryOf_def Let_def)
  have "?ms = sort_key timestamp (filter (\<lambda>m. conversationId m = cid) db)"
    by (rule filter_sort)
  then have "length ?ms = length (filter (\<lambda>m. conversationId m = cid) db)" by simp
  then show "messageCount (summaryOf ?docs cid) =
           length (filter (\<lambda>m. conversationId m = cid) db)"
    by (simp add: summaryOf_def Let_def)
  from assms have ne: "?ms \<noteq> []" by (auto simp: filter_empty_conv)
  then have "last ?ms \<in> set ?ms" by (rule last_in_set)
  then have l1: "last ?ms \<in> set db" and l2: "conversationId (last ?ms) = cid" by auto
  have "sorted (map timestamp ?docs)" by simp
  then have srt: "sorted (map timestamp ?ms)" by (rule sorted_filter)
  have l3: "timestamp m' \<le> timestamp (last ?ms)"
    if "m' \<in> set db" "conversationId m' = cid" for m'
  proof -
    from that have "m' \<in> set ?ms" by simp
    with srt show ?thesis by (rule sorted_last_greatest)
  qed
  have "conversationId (last ?ms) = cid
           \<and> lastTimestamp (summaryOf ?docs cid) = timestamp (last ?ms)
           \<and> lastMessageBody (summaryOf ?docs cid) = body (last ?ms)
           \<and> (\<forall>m' \<in> set db. conversationId m' = cid \<longrightarrow> timestamp m' \<le> timestamp (last ?ms))"
    using l2 l3 by (simp add: summaryOf_def Let_def)
  with l1 show "\<exists>m \<in> set db. conversationId m = cid
           \<and> lastTimestamp (summaryOf ?docs cid) = timestamp m
           \<and> lastMessageBody (summaryOf ?docs cid) = body m
           \<and> (\<forall>m' \<in> set db. conversationId m' = cid \<longrightarrow> timestamp m' \<le> timestamp m)"
    by blast
qed

lemma conversation_list:
  "\<exists>cs. aggregateConversations db = Inr cs
     \<and> distinct (map cs_conversationId cs)
     \<and> set (map cs_conversationId cs) = conversationId ` set db
     \<and> sorted (rev (map lastTimestamp cs))
     \<and> (\<forall>c \<in> set cs.
          c = summaryOf (sort_key timestamp db) (cs_conversationId c)
          \<and> messageCount c = length (filter (\<lambda>m. conversationId m = cs_conversationId c) db)
          \<and> (\<exists>m \<in> set db. conversationId m = cs_conversationId c
                \<and> lastTimestamp c = timestamp m \<and> lastMessageBody c = body m
                \<and> (\<forall>m' \<in> set db. conversationId m' = cs_conversationId c \<longrightarrow>
                      timestamp m' \<le> timestamp m)))"
proof -
  let ?docs = "sort_key timestamp db"
  let ?ids = "remdups (map conversationId ?docs)"
  let ?cs = "sort_key (\<lambda>c. - lastTimestamp c) (map (summaryOf ?docs) ?ids)"
  have ids: "map cs_conversationId (map (summaryOf ?docs) ?ids) = ?ids"
    by (simp add: summaryOf_def Let_def comp_def)
  have set_ids: "set ?ids = conversationId ` set db" by simp
  have d0: "distinct (map cs_conversationId (map (summaryOf ?docs) ?ids))"
    unfolding ids by simp
  have d: "distinct (map cs_conversationId ?cs)"
    using d0 by (simp only: distinct_map distinct_sort set_sort) 
  have s: "set (map cs_conversationId ?cs) = conversationId ` set db"
  proof -
    have "set (map cs_conversationId ?cs) = set (map cs_conversationId (map (summaryOf ?docs) ?ids))"
      by (simp only: set_map set_sort)
    then show ?thesis unfolding ids by simp
  qed
  have o: "sorted (rev (map lastTimestamp ?cs))"
    by (rule sorted_uminus_rev) simp
  have e: "c = summaryOf ?docs (cs_conversationId c)
          \<and> messageCount c = length (filter (\<lambda>m. conversationId m = cs_conversationId c) db)
          \<and> (\<exists>m \<in> set db. conversationId m = cs_conversationId c
                \<and> lastTimestamp c = timestamp m \<and> lastMessageBody c = body m
                \<and> (\<forall>m' \<in> set db. conversationId m' = cs_conversationId c \<longrightarrow>
                      timestamp m' \<le> timestamp m))"
    if "c \<in> set ?cs" for c
  proof -
    from that obtain cid where c: "c = summaryOf ?docs cid" and cid: "cid \<in> conversationId ` set db"
      by auto
    note f = summaryOf_sorted [OF cid]
    from f(1) c have "cs_conversationId c = cid" by simp
    with c f show ?thesis by simp
  qed
  from d s o e aggregateConversations_eq [of db] show ?thesis by blast
qed

text \<open>
  C9. The store holds one message, sent by the business through \<open>POST /messages\<close>
  with the default name \<open>Business\<close>. The list has the conversation \<open>conv_5551234\<close>
  with its last body, timestamp and count, and its \<open>userName\<close> is missing: it is not
  \<open>+5551234\<close>.
\<close>

theorem business_only_conversation_has_no_name:
  "getConversations businessOnlyWorld =
     (Response 200
        (Conversations
           [\<lparr> cs_conversationId = ''conv_5551234'', cs_userName = Missing,
              lastMessageBody = ''hello'', lastTimestamp = 5, messageCount = 1,
              participants = [''Business''] \<rparr>]),
      businessOnlyWorld)
   \<and> store (snd (sendMessage True 5 ''abcdefghi'' sendRequest emptyWorld)) = store businessOnlyWorld"
  by (simp add: getConversations_def aggregateConversations_def groupStage_def projectStage_def
      projectUserName_def arrayElemAt_def customerEntry_def businessOnlyWorld_def sentExample_def
      Let_def sendMessage_def sendRequest_def emptyWorld_def eval_defs showInt_def trim_def emit_def say_def)

end
